theory Spec2Isabelle
  imports Main "HOL-Library.Word" "HOL-Library.List_Lexorder" "HOL-Library.Char_ord"
begin

unbundle bit_operations_syntax

section \<open>Shared types\<close>

type_synonym EpochTime = "64 word"
type_synonym PublicKey = nat
type_synonym Namespace = nat
type_synonym MethodName = string
type_synonym Hash = nat
type_synonym event = nat

text \<open>
  Go errors are values. The named errors the modelled code returns or compares against
  each have a constructor; \<open>ErrWrapped\<close> is \<open>fmt.Errorf("...: %w", err)\<close>, a fresh
  value that is never \<open>==\<close> to the error it wraps; \<open>ErrOther\<close> stands for the errors of
  packages that are not part of the model.
\<close>

datatype error =
    ErrHaltMode
  | errOversizedTx
  | ErrUnknownMethod MethodName
  | ErrNodeExpired
  | ErrForbidden
  | ErrIncorrectTxSigner
  | ErrInvalidArgument
  | ErrBadEntityForNode
  | ErrNoSuchNode
  | ErrNoSuchRuntime
  | ErrOutOfGas
  | ErrWrapped string error
  | ErrOther nat

datatype panic = Panic string

section \<open>The ABCI multiplexer (go/consensus/tendermint/abci/mux.go)\<close>

datatype ContextMode =
    ContextInitChain | ContextCheckTx | ContextDeliverTx
  | ContextSimulateTx | ContextBeginBlock | ContextEndBlock

record Transaction =
  Method :: MethodName
  Body :: nat

text \<open>
  Modelled from the spec: the abci Context (section 4.2) is not under src/. It carries
  the mode, the block height, the transaction signer, the events emitted so far and the
  state cursor, and the gas accountant as its cap and the gas used so far.
\<close>

record 'st Context =
  ctxMode :: ContextMode
  ctxBlockHeight :: int
  ctxTxSigner :: "PublicKey option"
  ctxGasLimit :: nat
  ctxGasUsed :: nat
  ctxEvents :: "event list"
  ctxState :: 'st

type_synonym 'st hook = "'st Context \<Rightarrow> error option \<times> 'st Context"

record ResponseEndBlock =
  ValidatorUpdates :: "nat list"
  Events :: "event list"

text \<open>
  The Application interface: a sub-application is its name, its methods and its
  hooks. A hook runs on the context and returns Go's \<open>error\<close> (\<open>None\<close> is \<open>nil\<close>);
  it may have changed the context also when it fails. \<open>FireTimers\<close> is what
  \<open>fireTimers(ctx, app)\<close> (not under src/) does for this application.
\<close>

record 'st Application =
  Name :: string
  Methods :: "MethodName list"
  Blessed :: bool
  Dependencies :: "string list"
  ExecuteTx :: "Transaction \<Rightarrow> 'st hook"
  ForeignExecuteTx :: "string \<Rightarrow> Transaction \<Rightarrow> 'st hook"
  InitChain :: "'st hook"
  BeginBlock :: "'st hook"
  EndBlock :: "'st Context \<Rightarrow> (ResponseEndBlock \<times> error option) \<times> 'st Context"
  FireTimers :: "'st hook"

text \<open>
  An unbuffered Go channel of errors as its receiver sees it: whether a receiver is
  blocked on it now, what has been received, whether it is closed.
\<close>

record chan =
  receiverWaiting :: bool
  received :: "error list"
  closed :: bool

text \<open>
  The calls the multiplexer makes, in the order it makes them. The log is an
  observation of the run, not part of the Go state.
\<close>

datatype call =
    CallInitChain string
  | CallBeginBlock string
  | CallFireTimers string
  | CallEndBlock string
  | CallAuthenticateTx
  | CallExecuteTx string
  | CallForeignExecuteTx string string
  | CallHaltHook nat int EpochTime
  | CallGenesisHook nat

datatype CheckTxType = CheckTxType_New | CheckTxType_Recheck

record RequestCheckTx =
  Tx :: "8 word list"
  Type :: CheckTxType

record 'st ApplicationState =
  deliverTxTree :: 'st
  checkTxTree :: 'st
  initChainEvents :: "event list option"
  blockHeight :: int
  txAuthHandler :: "(Transaction \<Rightarrow> 'st hook) option"
  timeSource :: "int \<Rightarrow> error + EpochTime"
  haltMode :: bool
  haltEpochHeight :: EpochTime

record 'st abciMux =
  muxState :: "'st ApplicationState"
  appsByName :: "(string \<times> 'st Application) list"
  appsByMethod :: "(MethodName \<times> 'st Application) list"
  appsByLexOrder :: "'st Application list"
  lastBeginBlock :: int
  maxTxSize :: nat
  haltHooks :: "nat list"
  appBlessed :: "string option"
  genesisHooks :: "nat list"
  openTx :: "8 word list \<Rightarrow> error + (Transaction \<times> PublicKey)"
  hashFromBytes :: "8 word list \<Rightarrow> Hash"
  invalidatedTxs :: "Hash \<rightharpoonup> nat"
  channels :: "nat \<rightharpoonup> chan"
  calls :: "call list"

definition BlockHeight :: "'st ApplicationState \<Rightarrow> int" where
  "BlockHeight s = blockHeight s"

definition GetEpoch :: "'st ApplicationState \<Rightarrow> int \<Rightarrow> error + EpochTime" where
  "GetEpoch s h = timeSource s h"

text \<open>
  Modelled from the spec: NewContext is not under src/. CheckTx runs on the mempool
  cursor, every other mode on the delivery cursor.
\<close>

definition NewContext :: "ContextMode \<Rightarrow> 'st ApplicationState \<Rightarrow> 'st Context" where
  "NewContext m s =
     \<lparr> ctxMode = m, ctxBlockHeight = blockHeight s, ctxTxSigner = None,
       ctxGasLimit = 0, ctxGasUsed = 0, ctxEvents = [],
       ctxState = (if m = ContextCheckTx then checkTxTree s else deliverTxTree s) \<rparr>"

text \<open>Writing the context's cursor back: the Go context mutates the tree in place.\<close>

definition storeCursor :: "'st Context \<Rightarrow> 'st ApplicationState \<Rightarrow> 'st ApplicationState" where
  "storeCursor ctx s =
     (if ctxMode ctx = ContextCheckTx then s\<lparr>checkTxTree := ctxState ctx\<rparr>
      else if ctxMode ctx = ContextSimulateTx then s
      else s\<lparr>deliverTxTree := ctxState ctx\<rparr>)"

definition inHaltEpoch :: "'st ApplicationState \<Rightarrow> bool \<times> 'st ApplicationState" where
  "inHaltEpoch s =
     (let blockHeight = BlockHeight s in
      case GetEpoch s (blockHeight + 1) of
        Inl err \<Rightarrow> (False, s)
      | Inr currentEpoch \<Rightarrow>
          (currentEpoch = haltEpochHeight s, s\<lparr>haltMode := (currentEpoch = haltEpochHeight s)\<rparr>))"

definition afterHaltEpoch :: "'st ApplicationState \<Rightarrow> bool" where
  "afterHaltEpoch s =
     (let blockHeight = BlockHeight s in
      case GetEpoch s (blockHeight + 1) of
        Inl err \<Rightarrow> False
      | Inr currentEpoch \<Rightarrow> currentEpoch > haltEpochHeight s)"

text \<open>
  The loop \<open>for _, app := range mux.appsByLexOrder { app.BeginBlock(ctx, req) }\<close>
  with its panic at the first error.
\<close>

fun dispatchBeginBlock ::
  "'st Application list \<Rightarrow> 'st Context \<Rightarrow> call list \<Rightarrow> (panic + 'st Context) \<times> call list" where
  "dispatchBeginBlock [] ctx cs = (Inr ctx, cs)"
| "dispatchBeginBlock (app # apps) ctx cs =
     (case BeginBlock app ctx of
        (Some err, ctx') \<Rightarrow>
          (Inl (Panic (''mux: BeginBlock: fatal error in application: '' @ Name app)),
           cs @ [CallBeginBlock (Name app)])
      | (None, ctx') \<Rightarrow> dispatchBeginBlock apps ctx' (cs @ [CallBeginBlock (Name app)]))"

definition abciMux_BeginBlock ::
  "'st abciMux \<Rightarrow> (panic + event list) \<times> 'st abciMux" where
  "abciMux_BeginBlock mux =
     (let blockHeight = BlockHeight (muxState mux) in
      if lastBeginBlock mux = blockHeight then (Inl (Panic ''mux: redundant BeginBlock''), mux)
      else
        let mux = mux\<lparr>lastBeginBlock := blockHeight\<rparr>;
            ctx = NewContext ContextBeginBlock (muxState mux);
            (halted, mux) =
              (if \<not> haltMode (muxState mux) then
                 (case inHaltEpoch (muxState mux) of
                    (False, s) \<Rightarrow> (None, mux\<lparr>muxState := s\<rparr>)
                  | (True, s) \<Rightarrow>
                      (Some (Inr []),
                       mux\<lparr>muxState := s,
                           calls := calls mux @
                             map (\<lambda>hook. CallHaltHook hook blockHeight (haltEpochHeight s))
                               (haltHooks mux)\<rparr>))
               else if \<not> afterHaltEpoch (muxState mux) then (Some (Inr []), mux)
               else (Some (Inl (Panic ''tendermint: after halt epoch, halting'')), mux))
        in case halted of
             Some r \<Rightarrow> (r, mux)
           | None \<Rightarrow>
              (case dispatchBeginBlock (appsByLexOrder mux) ctx (calls mux) of
                 (Inl p, cs) \<Rightarrow> (Inl p, mux\<lparr>calls := cs\<rparr>)
               | (Inr ctx', cs) \<Rightarrow>
                   (let s = storeCursor ctx' (muxState mux);
                        response = ctxEvents ctx'
                    in if BlockHeight s = 0 then
                         (case initChainEvents s of
                            Some events \<Rightarrow>
                              (Inr (events @ response),
                               mux\<lparr>muxState := s\<lparr>initChainEvents := None\<rparr>, calls := cs\<rparr>)
                          | None \<Rightarrow> (Inr response, mux\<lparr>muxState := s, calls := cs\<rparr>))
                       else (Inr response, mux\<lparr>muxState := s, calls := cs\<rparr>))))"

text \<open>
  decodeTx. The CBOR decoding, the signature check of \<open>sigTx.Open\<close> and
  \<open>tx.SanityCheck\<close> are not under src/: \<open>openTx\<close> is their composition, a parameter
  of the multiplexer.
\<close>

definition decodeTx :: "'st abciMux \<Rightarrow> 8 word list \<Rightarrow> error + (Transaction \<times> PublicKey)" where
  "decodeTx mux rawTx =
     (if haltMode (muxState mux) then Inl ErrHaltMode
      else if maxTxSize mux > 0 \<and> length rawTx > maxTxSize mux then Inl errOversizedTx
      else openTx mux rawTx)"

fun dispatchForeignExecuteTx ::
  "'st Application list \<Rightarrow> 'st Application \<Rightarrow> Transaction \<Rightarrow> 'st Context \<Rightarrow> call list
     \<Rightarrow> (error option \<times> 'st Context) \<times> call list" where
  "dispatchForeignExecuteTx [] app tx ctx cs = ((None, ctx), cs)"
| "dispatchForeignExecuteTx (foreignApp # apps) app tx ctx cs =
     (if Name foreignApp = Name app then dispatchForeignExecuteTx apps app tx ctx cs
      else
        (case ForeignExecuteTx foreignApp (Name app) tx ctx of
           (Some err, ctx') \<Rightarrow>
             ((Some err, ctx'), cs @ [CallForeignExecuteTx (Name foreignApp) (Name app)])
         | (None, ctx') \<Rightarrow>
             dispatchForeignExecuteTx apps app tx ctx'
               (cs @ [CallForeignExecuteTx (Name foreignApp) (Name app)])))"

definition processTx ::
  "'st abciMux \<Rightarrow> 'st Context \<Rightarrow> Transaction \<Rightarrow> call list
     \<Rightarrow> (error option \<times> 'st Context) \<times> call list" where
  "processTx mux ctx tx cs =
     (case (case txAuthHandler (muxState mux) of
              None \<Rightarrow> ((None, ctx), cs)
            | Some AuthenticateTx \<Rightarrow> (AuthenticateTx tx ctx, cs @ [CallAuthenticateTx])) of
        ((Some err, ctx1), cs1) \<Rightarrow> ((Some err, ctx1), cs1)
      | ((None, ctx1), cs1) \<Rightarrow>
          (case map_of (appsByMethod mux) (Method tx) of
             None \<Rightarrow> ((Some (ErrUnknownMethod (Method tx)), ctx1), cs1)
           | Some app \<Rightarrow>
               (case ExecuteTx app tx ctx1 of
                  (Some err, ctx2) \<Rightarrow> ((Some err, ctx2), cs1 @ [CallExecuteTx (Name app)])
                | (None, ctx2) \<Rightarrow>
                    dispatchForeignExecuteTx (appsByLexOrder mux) app tx ctx2
                      (cs1 @ [CallExecuteTx (Name app)]))))"

definition executeTx ::
  "'st abciMux \<Rightarrow> 'st Context \<Rightarrow> 8 word list \<Rightarrow> call list
     \<Rightarrow> (error option \<times> 'st Context) \<times> call list" where
  "executeTx mux ctx rawTx cs =
     (case decodeTx mux rawTx of
        Inl err \<Rightarrow> ((Some err, ctx), cs)
      | Inr (tx, signer) \<Rightarrow> processTx mux (ctx\<lparr>ctxTxSigner := Some signer\<rparr>) tx cs)"

text \<open>
  The non-blocking send \<open>select { case ch <- err: default: }\<close> on an unbuffered
  channel: the value is handed over only if a receiver is blocked on the channel at that
  moment; otherwise the \<open>default\<close> branch runs and the value is dropped.
\<close>

definition trySend :: "error \<Rightarrow> chan \<Rightarrow> chan" where
  "trySend err ch =
     (if receiverWaiting ch \<and> \<not> closed ch
      then ch\<lparr>receiverWaiting := False, received := received ch @ [err]\<rparr>
      else ch)"

definition closeChan :: "chan \<Rightarrow> chan" where
  "closeChan ch = ch\<lparr>closed := True\<rparr>"

text \<open>
  CheckTx. The response is reduced to its error (\<open>None\<close> is \<open>CodeTypeOK\<close>) and the
  gas used.
\<close>

definition abciMux_CheckTx ::
  "'st abciMux \<Rightarrow> RequestCheckTx \<Rightarrow> (error option \<times> nat) \<times> 'st abciMux" where
  "abciMux_CheckTx mux req =
     (let ctx = NewContext ContextCheckTx (muxState mux) in
      case executeTx mux ctx (Tx req) (calls mux) of
        ((Some err, ctx'), cs) \<Rightarrow>
          (let mux = mux\<lparr>muxState := storeCursor ctx' (muxState mux), calls := cs\<rparr>;
               mux =
                 (if Type req = CheckTxType_Recheck then
                    (let txHash = hashFromBytes mux (Tx req) in
                     case invalidatedTxs mux txHash of
                       Some sub \<Rightarrow>
                         mux\<lparr>channels :=
                               (case channels mux sub of
                                  Some ch \<Rightarrow> (channels mux)(sub \<mapsto> closeChan (trySend err ch))
                                | None \<Rightarrow> channels mux),
                             invalidatedTxs := (invalidatedTxs mux)(txHash := None)\<rparr>
                     | None \<Rightarrow> mux)
                  else mux)
           in ((Some err, ctxGasUsed ctx'), mux))
      | ((None, ctx'), cs) \<Rightarrow>
          ((None, ctxGasUsed ctx'),
           mux\<lparr>muxState := storeCursor ctx' (muxState mux), calls := cs\<rparr>))"

definition abciMux_DeliverTx ::
  "'st abciMux \<Rightarrow> 8 word list \<Rightarrow> (error option \<times> event list \<times> nat) \<times> 'st abciMux" where
  "abciMux_DeliverTx mux rawTx =
     (let ctx = NewContext ContextDeliverTx (muxState mux) in
      case executeTx mux ctx rawTx (calls mux) of
        ((Some err, ctx'), cs) \<Rightarrow>
          ((Some err, [], ctxGasUsed ctx'),
           mux\<lparr>muxState := storeCursor ctx' (muxState mux), calls := cs\<rparr>)
      | ((None, ctx'), cs) \<Rightarrow>
          ((None, ctxEvents ctx', ctxGasUsed ctx'),
           mux\<lparr>muxState := storeCursor ctx' (muxState mux), calls := cs\<rparr>))"

fun dispatchFireTimers ::
  "'st Application list \<Rightarrow> 'st Context \<Rightarrow> call list \<Rightarrow> (panic + 'st Context) \<times> call list" where
  "dispatchFireTimers [] ctx cs = (Inr ctx, cs)"
| "dispatchFireTimers (app # apps) ctx cs =
     (case FireTimers app ctx of
        (Some err, ctx') \<Rightarrow>
          (Inl (Panic (''mux: EndBlock: fatal error in application: '' @ Name app)),
           cs @ [CallFireTimers (Name app)])
      | (None, ctx') \<Rightarrow> dispatchFireTimers apps ctx' (cs @ [CallFireTimers (Name app)]))"

fun dispatchEndBlock ::
  "'st Application list \<Rightarrow> 'st Context \<Rightarrow> ResponseEndBlock \<Rightarrow> call list
     \<Rightarrow> (panic + ResponseEndBlock \<times> 'st Context) \<times> call list" where
  "dispatchEndBlock [] ctx resp cs = (Inr (resp, ctx), cs)"
| "dispatchEndBlock (app # apps) ctx resp cs =
     (case EndBlock app ctx of
        ((newResp, Some err), ctx') \<Rightarrow>
          (Inl (Panic (''mux: EndBlock: fatal error in application: '' @ Name app)),
           cs @ [CallEndBlock (Name app)])
      | ((newResp, None), ctx') \<Rightarrow>
          dispatchEndBlock apps ctx' (if Blessed app then newResp else resp)
            (cs @ [CallEndBlock (Name app)]))"

definition abciMux_EndBlock ::
  "'st abciMux \<Rightarrow> (panic + ResponseEndBlock) \<times> 'st abciMux" where
  "abciMux_EndBlock mux =
     (if haltMode (muxState mux) then (Inr \<lparr>ValidatorUpdates = [], Events = []\<rparr>, mux)
      else
        let ctx = NewContext ContextEndBlock (muxState mux) in
        case dispatchFireTimers (appsByLexOrder mux) ctx (calls mux) of
          (Inl p, cs) \<Rightarrow> (Inl p, mux\<lparr>calls := cs\<rparr>)
        | (Inr ctx1, cs) \<Rightarrow>
            (case dispatchEndBlock (appsByLexOrder mux) ctx1
                    \<lparr>ValidatorUpdates = [], Events = []\<rparr> cs of
               (Inl p, cs') \<Rightarrow> (Inl p, mux\<lparr>calls := cs'\<rparr>)
             | (Inr (resp, ctx2), cs') \<Rightarrow>
                 (Inr (resp\<lparr>Events := ctxEvents ctx2\<rparr>),
                  mux\<lparr>muxState := storeCursor ctx2 (muxState mux), calls := cs'\<rparr>)))"

fun dispatchInitChain ::
  "'st Application list \<Rightarrow> 'st Context \<Rightarrow> call list \<Rightarrow> (panic + 'st Context) \<times> call list" where
  "dispatchInitChain [] ctx cs = (Inr ctx, cs)"
| "dispatchInitChain (app # apps) ctx cs =
     (case InitChain app ctx of
        (Some err, ctx') \<Rightarrow>
          (Inl (Panic (''mux: InitChain: fatal error in application: '' @ Name app)),
           cs @ [CallInitChain (Name app)])
      | (None, ctx') \<Rightarrow> dispatchInitChain apps ctx' (cs @ [CallInitChain (Name app)]))"

text \<open>
  InitChain. \<open>st\<close> is the result of \<open>parseGenesisAppState(req)\<close>, reduced to the
  maximum transaction size it carries (\<open>None\<close> when the genesis state does not parse).
  The genesis digest and the stored genesis request are writes to tree keys that no
  modelled code reads, and are left out.
\<close>

definition abciMux_InitChain :: "'st abciMux \<Rightarrow> nat option \<Rightarrow> (panic + unit) \<times> 'st abciMux" where
  "abciMux_InitChain mux st =
     (case st of
        None \<Rightarrow> (Inl (Panic ''mux: invalid genesis application state''), mux)
      | Some maxSize \<Rightarrow>
          (let mux = mux\<lparr>maxTxSize := maxSize,
                         calls := calls mux @ map CallGenesisHook (genesisHooks mux)\<rparr>;
               ctx = NewContext ContextInitChain (muxState mux)
           in case dispatchInitChain (appsByLexOrder mux) ctx (calls mux) of
                (Inl p, cs) \<Rightarrow> (Inl p, mux\<lparr>calls := cs\<rparr>)
              | (Inr ctx', cs) \<Rightarrow>
                  (Inr (),
                   mux\<lparr>muxState := (storeCursor ctx' (muxState mux))
                                    \<lparr>initChainEvents := Some (ctxEvents ctx')\<rparr>,
                       calls := cs\<rparr>)))"

text \<open>
  rebuildAppLexOrdering: the names of \<open>appsByName\<close> (a Go map, here the association list
  of its entries) sorted by \<open>sort.Strings\<close>, then looked up again.
\<close>

definition rebuildAppLexOrdering :: "'st abciMux \<Rightarrow> 'st abciMux" where
  "rebuildAppLexOrdering mux =
     (let appOrder = sort (map fst (appsByName mux))
      in mux\<lparr>appsByLexOrder := List.map_filter (map_of (appsByName mux)) appOrder\<rparr>)"

fun registerMethods ::
  "MethodName list \<Rightarrow> 'st Application \<Rightarrow> (MethodName \<times> 'st Application) list
     \<Rightarrow> error option \<times> (MethodName \<times> 'st Application) list" where
  "registerMethods [] app byMethod = (None, byMethod)"
| "registerMethods (m # ms) app byMethod =
     (if map_of byMethod m \<noteq> None then (Some (ErrOther 2), byMethod)
      else registerMethods ms app (byMethod @ [(m, app)]))"

definition doRegister :: "'st abciMux \<Rightarrow> 'st Application \<Rightarrow> error option \<times> 'st abciMux" where
  "doRegister mux app =
     (let name = Name app in
      if map_of (appsByName mux) name \<noteq> None then (Some (ErrOther 0), mux)
      else if Blessed app \<and> appBlessed mux \<noteq> None then (Some (ErrOther 1), mux)
      else
        let mux = (if Blessed app then mux\<lparr>appBlessed := Some name\<rparr> else mux);
            mux = mux\<lparr>appsByName := appsByName mux @ [(name, app)]\<rparr>
        in case registerMethods (Methods app) app (appsByMethod mux) of
             (Some err, byMethod) \<Rightarrow> (Some err, mux\<lparr>appsByMethod := byMethod\<rparr>)
           | (None, byMethod) \<Rightarrow>
               (None, rebuildAppLexOrdering (mux\<lparr>appsByMethod := byMethod\<rparr>)))"

subsection \<open>A small multiplexer to evaluate on\<close>

definition demoApp :: "string \<Rightarrow> MethodName list \<Rightarrow> unit Application" where
  "demoApp n ms = \<lparr> Name = n, Methods = ms, Blessed = False, Dependencies = [],
     ExecuteTx = (\<lambda>tx ctx. (None, ctx)), ForeignExecuteTx = (\<lambda>a tx ctx. (None, ctx)),
     InitChain = (\<lambda>ctx. (None, ctx)), BeginBlock = (\<lambda>ctx. (None, ctx)),
     EndBlock = (\<lambda>ctx. ((\<lparr>ValidatorUpdates = [], Events = []\<rparr>, None), ctx)),
     FireTimers = (\<lambda>ctx. (None, ctx)) \<rparr>"

definition demoMux :: "unit abciMux" where
  "demoMux =
     \<lparr> muxState =
         \<lparr> deliverTxTree = (), checkTxTree = (), initChainEvents = None, blockHeight = 4,
           txAuthHandler = None,
           timeSource = (\<lambda>h. Inr (if h < 5 then 2 else if h < 10 then 3 else 4)),
           haltMode = False, haltEpochHeight = 3 \<rparr>,
       appsByName = [], appsByMethod = [], appsByLexOrder = [],
       lastBeginBlock = 3, maxTxSize = 0, haltHooks = [0, 1], appBlessed = None,
       genesisHooks = [],
       openTx = (\<lambda>raw. Inr (\<lparr>Method = ''registry.RegisterNode'', Body = 0\<rparr>, 0)),
       hashFromBytes = length, invalidatedTxs = Map.empty, channels = Map.empty,
       calls = [] \<rparr>"

definition haltedMux :: "unit abciMux" where
  "haltedMux =
     demoMux\<lparr>lastBeginBlock := 4, muxState := (muxState demoMux)\<lparr>haltMode := True\<rparr>,
             calls := [CallHaltHook 0 4 3, CallHaltHook 1 4 3]\<rparr>"

definition pastHaltMux :: "unit abciMux" where
  "pastHaltMux = haltedMux\<lparr>muxState := (muxState haltedMux)\<lparr>blockHeight := 9\<rparr>\<rparr>"

definition haltedMuxNext :: "unit abciMux" where
  "haltedMuxNext = haltedMux\<lparr>muxState := (muxState haltedMux)\<lparr>blockHeight := 5\<rparr>\<rparr>"

definition failingApp :: "string \<Rightarrow> MethodName list \<Rightarrow> unit Application" where
  "failingApp n ms = (demoApp n ms)\<lparr>ExecuteTx := (\<lambda>tx ctx. (Some ErrInvalidArgument, ctx))\<rparr>"

definition recheckMux :: "bool \<Rightarrow> unit abciMux" where
  "recheckMux waiting =
     demoMux\<lparr>appsByName := [(''registry'', failingApp ''registry'' [''registry.RegisterNode''])],
             appsByMethod := [(''registry.RegisterNode'', failingApp ''registry'' [''registry.RegisterNode''])],
             appsByLexOrder := [failingApp ''registry'' [''registry.RegisterNode'']],
             invalidatedTxs := [2 \<mapsto> 0],
             channels := [0 \<mapsto> \<lparr>receiverWaiting = waiting, received = [], closed = False\<rparr>]\<rparr>"

text \<open>
  The registration invariant of the multiplexer: names are unique keys of \<open>appsByName\<close>,
  every application is stored under its own name, and \<open>appsByLexOrder\<close> is what
  \<open>rebuildAppLexOrdering\<close> computed when the last registration succeeded, from the
  entries \<open>appsByName\<close> had then (the first \<open>k\<close>: a registration that fails in
  \<open>registerMethods\<close> has added its entry and has not rebuilt the order).
\<close>

definition appsRegistered :: "'st abciMux \<Rightarrow> bool" where
  "appsRegistered mux \<longleftrightarrow>
     distinct (map fst (appsByName mux)) \<and>
     (\<forall>(n, app) \<in> set (appsByName mux). Name app = n) \<and>
     (\<exists>k \<le> length (appsByName mux).
        appsByLexOrder mux =
          List.map_filter (map_of (take k (appsByName mux)))
            (sort (map fst (take k (appsByName mux)))))"

text \<open>
  The hooks of \<open>hs\<close>, run one after the other from the context \<open>ctx\<close>, all return no
  error and leave the context \<open>ctx'\<close>.
\<close>

fun hooksSucceed :: "'st hook list \<Rightarrow> 'st Context \<Rightarrow> 'st Context \<Rightarrow> bool" where
  "hooksSucceed [] ctx ctx' \<longleftrightarrow> ctx' = ctx"
| "hooksSucceed (h # hs) ctx ctx' \<longleftrightarrow>
     (case h ctx of (None, c) \<Rightarrow> hooksSucceed hs c ctx' | (Some err, c) \<Rightarrow> False)"

text \<open>The EndBlock hook of an application as a hook: its error and its context.\<close>

definition endBlockHook :: "'st Application \<Rightarrow> 'st hook" where
  "endBlockHook app ctx = (snd (fst (EndBlock app ctx)), snd (EndBlock app ctx))"

text \<open>
  The transaction authentication handler of the multiplexer, if one is set, accepts the
  transaction and leaves the context \<open>ctx1\<close>; \<open>authCalls\<close> is the call it adds to the log.
\<close>

definition authenticated ::
  "'st abciMux \<Rightarrow> Transaction \<Rightarrow> 'st Context \<Rightarrow> 'st Context \<Rightarrow> bool" where
  "authenticated mux tx ctx ctx1 \<longleftrightarrow>
     (case txAuthHandler (muxState mux) of
        None \<Rightarrow> ctx1 = ctx
      | Some AuthenticateTx \<Rightarrow> AuthenticateTx tx ctx = (None, ctx1))"

definition authCalls :: "'st abciMux \<Rightarrow> call list" where
  "authCalls mux = (if txAuthHandler (muxState mux) = None then [] else [CallAuthenticateTx])"

definition runningMux :: "unit abciMux" where
  "runningMux = demoMux\<lparr>muxState := (muxState demoMux)\<lparr>blockHeight := 1\<rparr>, lastBeginBlock := 0\<rparr>"

definition twoAppMux :: "unit abciMux" where
  "twoAppMux =
     snd (doRegister (snd (doRegister runningMux (demoApp ''staking'' [''staking.Transfer''])))
            (failingApp ''registry'' [''registry.RegisterNode'']))"

definition threeAppMux :: "unit abciMux" where
  "threeAppMux =
     snd (doRegister
            (snd (doRegister (snd (doRegister runningMux (demoApp ''staking'' [''staking.Transfer''])))
                    (demoApp ''registry'' [''registry.RegisterNode''])))
            (demoApp ''beacon'' []))"

text \<open>
  An application that fails in the hook named \<open>h\<close> only, the multiplexer with this
  application registered as \<open>keymanager\<close> after the three others, and a multiplexer
  whose authentication handler rejects every transaction.
\<close>

definition faultyApp :: "string \<Rightarrow> MethodName list \<Rightarrow> string \<Rightarrow> unit Application" where
  "faultyApp n ms h = (demoApp n ms)
     \<lparr>ForeignExecuteTx :=
        (\<lambda>a tx ctx. (if h = ''ForeignExecuteTx'' then Some ErrInvalidArgument else None, ctx)),
      InitChain := (\<lambda>ctx. (if h = ''InitChain'' then Some ErrInvalidArgument else None, ctx)),
      BeginBlock := (\<lambda>ctx. (if h = ''BeginBlock'' then Some ErrInvalidArgument else None, ctx)),
      EndBlock :=
        (\<lambda>ctx. ((\<lparr>ValidatorUpdates = [], Events = []\<rparr>,
                 if h = ''EndBlock'' then Some ErrInvalidArgument else None), ctx)),
      FireTimers := (\<lambda>ctx. (if h = ''FireTimers'' then Some ErrInvalidArgument else None, ctx))\<rparr>"

definition faultyMux :: "string \<Rightarrow> unit abciMux" where
  "faultyMux h = snd (doRegister threeAppMux (faultyApp ''keymanager'' [] h))"

definition authMux :: "unit abciMux" where
  "authMux = threeAppMux\<lparr>muxState := (muxState threeAppMux)
     \<lparr>txAuthHandler := Some (\<lambda>tx ctx. (Some ErrForbidden, ctx))\<rparr>\<rparr>"

definition demoCtx :: "unit Context" where
  "demoCtx = NewContext ContextDeliverTx (muxState runningMux)"

section \<open>Node registration (registerNode)\<close>

datatype TEEHardware = TEEHardwareInvalid | TEEHardwareIntelSGX | TEEHardwareReserved

datatype RuntimeKind = KindCompute | KindKeyManager

datatype ThresholdKind = KindEntity | KindNodeValidator | KindNodeCompute | KindNodeStorage
  | KindNodeKeyManager | KindRuntime

datatype Op = GasOpRegisterEntity | GasOpDeregisterEntity | GasOpRegisterNode
  | GasOpUnfreezeNode | GasOpRegisterRuntime | GasOpRuntimeEpochMaintenance

record CapabilityTEE =
  Hardware :: TEEHardware

record NodeRuntime =
  nrID :: Namespace
  nrCapabilitiesTEE :: "CapabilityTEE option"
  nrExtraInfo :: nat

record Node =
  nodeID :: PublicKey
  EntityID :: PublicKey
  Expiration :: "64 word"
  Runtimes :: "NodeRuntime list"
  Roles :: "32 word"

record SignedNode =
  Blob :: nat
  SignaturePublicKey :: PublicKey

record Entity =
  entityID :: PublicKey
  AllowEntitySignedNodes :: bool
  Nodes :: "PublicKey list"

record NodeStatus =
  ExpirationProcessed :: bool
  FreezeEndTime :: EpochTime

record RuntimeAdmissionPolicy =
  AnyNode :: "unit option"
  EntityWhitelist :: "(PublicKey \<rightharpoonup> bool) option"

record Runtime =
  runtimeID :: Namespace
  Kind :: RuntimeKind
  rtTEEHardware :: TEEHardware
  AdmissionPolicy :: RuntimeAdmissionPolicy

record ConsensusParameters =
  DebugBypassStake :: bool
  GasCosts :: "Op \<Rightarrow> nat"

text \<open>
  The code registerNode calls that is not under src/, as parameters: the CBOR decoder,
  the accessors of the registry state (\<open>state.Entity\<close>, \<open>state.Runtime\<close>, ...), the
  verification functions of the registry API, the stake cache of the staking
  application (\<open>'c\<close>) and the event encoders. The readers take the state tree and
  return a value; the three writers return Go's \<open>error\<close> and the tree they leave.
\<close>

record ('st, 'c) RegistryDeps =
  cborUnmarshalNode :: "nat \<Rightarrow> error + Node"
  stateEntity :: "'st \<Rightarrow> PublicKey \<Rightarrow> error + Entity"
  stateConsensusParameters :: "'st \<Rightarrow> error + ConsensusParameters"
  VerifyRegisterNodeArgs ::
    "ConsensusParameters \<Rightarrow> SignedNode \<Rightarrow> Entity \<Rightarrow> bool \<Rightarrow> 'st \<Rightarrow> error + Node \<times> Runtime list"
  stateRuntime :: "'st \<Rightarrow> Namespace \<Rightarrow> error + Runtime"
  NewStakeCache :: "'st \<Rightarrow> error + 'c"
  EnsureSufficientStake :: "'c \<Rightarrow> PublicKey \<Rightarrow> ThresholdKind list \<Rightarrow> error option"
  EnsureNodeRegistrationStake :: "'c \<Rightarrow> PublicKey \<Rightarrow> int \<Rightarrow> error option"
  stateNumEntityNodes :: "'st \<Rightarrow> PublicKey \<Rightarrow> error + int"
  stateNode :: "'st \<Rightarrow> PublicKey \<Rightarrow> error + Node"
  IsExpired :: "Node \<Rightarrow> 64 word \<Rightarrow> bool"
  VerifyNodeUpdate :: "Node \<Rightarrow> Node \<Rightarrow> error option"
  stateSetNode :: "Node \<Rightarrow> SignedNode \<Rightarrow> 'st \<Rightarrow> error option \<times> 'st"
  stateNodeStatus :: "'st \<Rightarrow> PublicKey \<Rightarrow> error + NodeStatus"
  stateSetNodeStatus :: "PublicKey \<Rightarrow> NodeStatus \<Rightarrow> 'st \<Rightarrow> error option \<times> 'st"
  stateResumeRuntime :: "Namespace \<Rightarrow> 'st \<Rightarrow> error option \<times> 'st"
  eventRuntimeRegistered :: "Runtime \<Rightarrow> event"
  eventNodeRegistered :: "Node \<Rightarrow> event"

text \<open>Modelled from the spec: the Context's mode tests (section 4.2), not under src/.\<close>

definition IsCheckOnly :: "'st Context \<Rightarrow> bool" where
  "IsCheckOnly ctx \<longleftrightarrow> ctxMode ctx = ContextCheckTx"

definition IsInitChain :: "'st Context \<Rightarrow> bool" where
  "IsInitChain ctx \<longleftrightarrow> ctxMode ctx = ContextInitChain"

definition EmitEvent :: "event \<Rightarrow> 'st Context \<Rightarrow> 'st Context" where
  "EmitEvent ev ctx = ctx\<lparr>ctxEvents := ctxEvents ctx @ [ev]\<rparr>"

text \<open>
  Modelled from the spec: the gas accountant's UseGas is not under src/. Section 4.2:
  \<open>use_gas(n_ops, op_kind, cost_table)\<close> deducts \<open>n_ops\<close> times the operation's cost and
  fails with OutOfGas if the cap would be exceeded. The count is a Go \<open>int\<close>; the spec
  gives no meaning to a negative count, which is charged as zero operations here.
\<close>

definition UseGas :: "int \<Rightarrow> Op \<Rightarrow> (Op \<Rightarrow> nat) \<Rightarrow> 'st Context \<Rightarrow> error option \<times> 'st Context" where
  "UseGas multiplier op costs ctx =
     (let amount = costs op * nat multiplier in
      if ctxGasUsed ctx + amount > ctxGasLimit ctx then (Some ErrOutOfGas, ctx)
      else (None, ctx\<lparr>ctxGasUsed := ctxGasUsed ctx + amount\<rparr>))"

text \<open>
  Modelled from the spec: the state checkpoint is not under src/. Section 4.2:
  \<open>new_checkpoint()\<close> gives a handle, \<open>handle.rollback()\<close> reverts all state writes
  since the checkpoint, \<open>handle.close()\<close> makes them permanent. The handle is the
  tree as it was at the checkpoint.
\<close>

definition NewStateCheckpoint :: "'st Context \<Rightarrow> 'st" where
  "NewStateCheckpoint ctx = ctxState ctx"

definition Rollback :: "'st \<Rightarrow> 'st Context \<Rightarrow> 'st Context" where
  "Rollback sc ctx = ctx\<lparr>ctxState := sc\<rparr>"

definition Close :: "'st \<Rightarrow> 'st Context \<Rightarrow> 'st Context" where
  "Close sc ctx = ctx"

text \<open>
  registerNode, lines 313 to 365 of the registry's transactions: decoding, the owning
  entity, the consensus parameters, VerifyRegisterNodeArgs, the gas of an entity-signed
  registration and the check of the transaction signer. The \<open>state\<close> argument of the Go
  function is the registry view of the context's tree.
\<close>

definition registerNode_args ::
  "('st, 'c) RegistryDeps \<Rightarrow> 'st Context \<Rightarrow> SignedNode
     \<Rightarrow> (error + ConsensusParameters \<times> Node \<times> Runtime list) \<times> 'st Context" where
  "registerNode_args deps ctx sigNode =
     (case cborUnmarshalNode deps (Blob sigNode) of
        Inl err \<Rightarrow> (Inl err, ctx)
      | Inr untrustedNode \<Rightarrow>
     (case stateEntity deps (ctxState ctx) (EntityID untrustedNode) of
        Inl err \<Rightarrow> (Inl err, ctx)
      | Inr untrustedEntity \<Rightarrow>
     (case stateConsensusParameters deps (ctxState ctx) of
        Inl err \<Rightarrow> (Inl err, ctx)
      | Inr params \<Rightarrow>
     (case VerifyRegisterNodeArgs deps params sigNode untrustedEntity (IsInitChain ctx)
             (ctxState ctx) of
        Inl err \<Rightarrow> (Inl err, ctx)
      | Inr (newNode, paidRuntimes) \<Rightarrow>
     (case (if SignaturePublicKey sigNode = EntityID newNode
            then UseGas 1 GasOpRegisterNode (GasCosts params) ctx else (None, ctx)) of
        (Some err, ctx1) \<Rightarrow> (Inl err, ctx1)
      | (None, ctx1) \<Rightarrow>
          if \<not> IsInitChain ctx1 \<and> ctxTxSigner ctx1 \<noteq> Some (SignaturePublicKey sigNode)
          then (Inl ErrIncorrectTxSigner, ctx1)
          else (Inr (params, newNode, paidRuntimes), ctx1))))))"

text \<open>Indexing a Go \<open>map[PublicKey]bool\<close>: a missing key reads as \<open>false\<close>.\<close>

definition mapIndex :: "(PublicKey \<rightharpoonup> bool) \<Rightarrow> PublicKey \<Rightarrow> bool" where
  "mapIndex m k = (case m k of Some b \<Rightarrow> b | None \<Rightarrow> False)"

text \<open>Lines 367 to 385: the loop that checks each listed runtime's whitelist.\<close>

fun checkWhitelist ::
  "('st, 'c) RegistryDeps \<Rightarrow> 'st \<Rightarrow> Node \<Rightarrow> NodeRuntime list \<Rightarrow> error option" where
  "checkWhitelist deps st newNode [] = None"
| "checkWhitelist deps st newNode (nrt # nrts) =
     (case stateRuntime deps st (nrID nrt) of
        Inl err \<Rightarrow> Some err
      | Inr rt \<Rightarrow>
          (case EntityWhitelist (AdmissionPolicy rt) of
             Some entities \<Rightarrow>
               if \<not> mapIndex entities (EntityID newNode) then Some ErrForbidden
               else checkWhitelist deps st newNode nrts
           | None \<Rightarrow> checkWhitelist deps st newNode nrts))"

text \<open>Lines 387 to 415: the entity's own stake and the number of its nodes.\<close>

definition recheckStake ::
  "('st, 'c) RegistryDeps \<Rightarrow> ConsensusParameters \<Rightarrow> 'st \<Rightarrow> Node \<Rightarrow> error + 'c option \<times> int" where
  "recheckStake deps params st newNode =
     (if \<not> DebugBypassStake params then
        (case NewStakeCache deps st of
           Inl err \<Rightarrow> Inl err
         | Inr stakeCache \<Rightarrow>
        (case EnsureSufficientStake deps stakeCache (EntityID newNode) [KindEntity] of
           Some err \<Rightarrow> Inl err
         | None \<Rightarrow>
        (case stateNumEntityNodes deps st (EntityID newNode) of
           Inl err \<Rightarrow> Inl err
         | Inr numEntityNodes \<Rightarrow> Inr (Some stakeCache, numEntityNodes))))
      else Inr (None, 0))"

text \<open>
  Lines 428 to 441: what the lookup of the node's id found. These are the three
  combinations of \<open>isNewNode\<close>, \<open>isExpiredNode\<close> and \<open>existingNode\<close> with which the code
  goes on; any other error of the lookup returns ErrInvalidArgument.
\<close>

datatype existing = NewNode | ExpiredNode Node | LiveNode Node

definition lookupNode ::
  "('st, 'c) RegistryDeps \<Rightarrow> 'st \<Rightarrow> Node \<Rightarrow> 64 word \<Rightarrow> error + existing" where
  "lookupNode deps st newNode epoch =
     (case stateNode deps st (nodeID newNode) of
        Inl err \<Rightarrow> if err = ErrNoSuchNode then Inr NewNode else Inl ErrInvalidArgument
      | Inr existingNode \<Rightarrow>
          if IsExpired deps existingNode epoch then Inr (ExpiredNode existingNode)
          else Inr (LiveNode existingNode))"

text \<open>
  Lines 443 to 457: the epochs to pay for, in \<open>uint64\<close> arithmetic, and the count
  \<open>len(paidRuntimes) * int(additionalEpochs)\<close> in the 64-bit \<open>int\<close>.
\<close>

definition additionalEpochs :: "Node \<Rightarrow> existing \<Rightarrow> 64 word \<Rightarrow> 64 word" where
  "additionalEpochs newNode ex epoch =
     (let additionalEpochs = Expiration newNode - epoch in
      case ex of
        LiveNode existingNode \<Rightarrow>
          (let remainingEpochs = Expiration existingNode - epoch in
           if additionalEpochs > remainingEpochs then additionalEpochs - remainingEpochs
           else 0)
      | _ \<Rightarrow> additionalEpochs)"

definition feeCount :: "Runtime list \<Rightarrow> 64 word \<Rightarrow> int" where
  "feeCount paidRuntimes epochs =
     sint ((word_of_nat (length paidRuntimes) :: 64 word) * epochs)"

text \<open>Lines 550 to 570: resuming the runtimes the node paid maintenance for.\<close>

fun resumeRuntimes ::
  "('st, 'c) RegistryDeps \<Rightarrow> Runtime list \<Rightarrow> 'st Context \<Rightarrow> error option \<times> 'st Context" where
  "resumeRuntimes deps [] ctx = (None, ctx)"
| "resumeRuntimes deps (rt # rts) ctx =
     (case stateResumeRuntime deps (runtimeID rt) (ctxState ctx) of
        (None, st) \<Rightarrow>
          resumeRuntimes deps rts (EmitEvent (eventRuntimeRegistered deps rt) (ctx\<lparr>ctxState := st\<rparr>))
      | (Some err, st) \<Rightarrow>
          if err = ErrNoSuchRuntime then resumeRuntimes deps rts (ctx\<lparr>ctxState := st\<rparr>)
          else (Some (ErrWrapped ''failed to resume suspended runtime'' err), ctx\<lparr>ctxState := st\<rparr>))"

definition ensureNodeStake ::
  "('st, 'c) RegistryDeps \<Rightarrow> ConsensusParameters \<Rightarrow> 'c option \<Rightarrow> PublicKey \<Rightarrow> int \<Rightarrow> error option" where
  "ensureNodeStake deps params stakeCache entity n =
     (if \<not> DebugBypassStake params then
        (case stakeCache of
           Some c \<Rightarrow> EnsureNodeRegistrationStake deps c entity n
         | None \<Rightarrow> None)
      else None)"

text \<open>
  Lines 472 to 548: the stake for the node, then the node's record and, for a node that
  is new or was expired, its status.
\<close>

definition registerNode_store ::
  "('st, 'c) RegistryDeps \<Rightarrow> ConsensusParameters \<Rightarrow> 'st Context \<Rightarrow> SignedNode \<Rightarrow> Node
     \<Rightarrow> existing \<Rightarrow> 'c option \<Rightarrow> int \<Rightarrow> error option \<times> 'st Context" where
  "registerNode_store deps params ctx sigNode newNode ex stakeCache numEntityNodes =
     (case ex of
        LiveNode existingNode \<Rightarrow>
          (case ensureNodeStake deps params stakeCache (EntityID newNode) numEntityNodes of
             Some err \<Rightarrow> (Some err, ctx)
           | None \<Rightarrow>
          (case VerifyNodeUpdate deps existingNode newNode of
             Some err \<Rightarrow> (Some err, ctx)
           | None \<Rightarrow>
          (case stateSetNode deps newNode sigNode (ctxState ctx) of
             (Some err, st) \<Rightarrow> (Some ErrBadEntityForNode, ctx\<lparr>ctxState := st\<rparr>)
           | (None, st) \<Rightarrow> (None, ctx\<lparr>ctxState := st\<rparr>))))
      | _ \<Rightarrow>
          (case ensureNodeStake deps params stakeCache (EntityID newNode)
                  (numEntityNodes + 1) of
             Some err \<Rightarrow> (Some err, ctx)
           | None \<Rightarrow>
          (case stateSetNode deps newNode sigNode (ctxState ctx) of
             (Some err, st) \<Rightarrow> (Some ErrBadEntityForNode, ctx\<lparr>ctxState := st\<rparr>)
           | (None, st) \<Rightarrow>
          (case (case ex of
                   NewNode \<Rightarrow> Inr \<lparr>ExpirationProcessed = False, FreezeEndTime = 0\<rparr>
                 | _ \<Rightarrow>
                    (case stateNodeStatus deps st (nodeID newNode) of
                       Inl err \<Rightarrow> Inl ErrInvalidArgument
                     | Inr status \<Rightarrow> Inr (status\<lparr>ExpirationProcessed := False\<rparr>))) of
             Inl err \<Rightarrow> (Some err, ctx\<lparr>ctxState := st\<rparr>)
           | Inr status \<Rightarrow>
          (case stateSetNodeStatus deps (nodeID newNode) status st of
             (Some err, st') \<Rightarrow> (Some ErrInvalidArgument, ctx\<lparr>ctxState := st'\<rparr>)
           | (None, st') \<Rightarrow> (None, ctx\<lparr>ctxState := st'\<rparr>))))))"

text \<open>
  Lines 472 to 581, the part between the checkpoint and the deferred function. It
  returns the error, the value of \<open>ok\<close> when it returns, and the context.
\<close>

definition registerNode_body ::
  "('st, 'c) RegistryDeps \<Rightarrow> ConsensusParameters \<Rightarrow> 'st Context \<Rightarrow> SignedNode \<Rightarrow> Node
     \<Rightarrow> Runtime list \<Rightarrow> existing \<Rightarrow> 'c option \<Rightarrow> int \<Rightarrow> (error option \<times> bool) \<times> 'st Context" where
  "registerNode_body deps params ctx sigNode newNode paidRuntimes ex stakeCache numEntityNodes =
     (let ok = False in
      case registerNode_store deps params ctx sigNode newNode ex stakeCache numEntityNodes of
        (Some err, ctx1) \<Rightarrow> ((Some err, ok), ctx1)
      | (None, ctx1) \<Rightarrow>
          (case resumeRuntimes deps paidRuntimes ctx1 of
             (Some err, ctx2) \<Rightarrow> ((Some err, ok), ctx2)
           | (None, ctx2) \<Rightarrow>
               (let ok = True in
                ((None, ok), EmitEvent (eventNodeRegistered deps newNode) ctx2))))"

text \<open>
  registerNode. \<open>appState\<close> is \<open>app.state\<close>, the multiplexer's ApplicationState, asked
  for the epoch.
\<close>

definition registerNode ::
  "('st, 'c) RegistryDeps \<Rightarrow> 'st ApplicationState \<Rightarrow> 'st Context \<Rightarrow> SignedNode
     \<Rightarrow> error option \<times> 'st Context" where
  "registerNode deps appState ctx sigNode =
     (if IsCheckOnly ctx then (None, ctx)
      else
     (case registerNode_args deps ctx sigNode of
        (Inl err, ctx1) \<Rightarrow> (Some err, ctx1)
      | (Inr (params, newNode, paidRuntimes), ctx1) \<Rightarrow>
     (case checkWhitelist deps (ctxState ctx1) newNode (Runtimes newNode) of
        Some err \<Rightarrow> (Some err, ctx1)
      | None \<Rightarrow>
     (case recheckStake deps params (ctxState ctx1) newNode of
        Inl err \<Rightarrow> (Some err, ctx1)
      | Inr (stakeCache, numEntityNodes) \<Rightarrow>
     (case GetEpoch appState (ctxBlockHeight ctx1 + 1) of
        Inl err \<Rightarrow> (Some err, ctx1)
      | Inr epoch \<Rightarrow>
          if Expiration newNode \<le> epoch then (Some ErrNodeExpired, ctx1)
          else
     (case lookupNode deps (ctxState ctx1) newNode epoch of
        Inl err \<Rightarrow> (Some err, ctx1)
      | Inr ex \<Rightarrow>
     (case UseGas (feeCount paidRuntimes (additionalEpochs newNode ex epoch))
             GasOpRuntimeEpochMaintenance (GasCosts params) ctx1 of
        (Some err, ctx2) \<Rightarrow> (Some err, ctx2)
      | (None, ctx2) \<Rightarrow>
          (let sc = NewStateCheckpoint ctx2 in
           case registerNode_body deps params ctx2 sigNode newNode paidRuntimes ex stakeCache
                  numEntityNodes of
             ((err, ok), ctx3) \<Rightarrow>
               (err, Close sc (if \<not> ok then Rollback sc ctx3 else ctx3))))))))))"


subsection \<open>A registry in memory to evaluate on\<close>

record RegState =
  rsEntities :: "PublicKey \<rightharpoonup> Entity"
  rsNodes :: "PublicKey \<rightharpoonup> Node"
  rsNodeStatuses :: "PublicKey \<rightharpoonup> NodeStatus"
  rsRuntimes :: "Namespace \<rightharpoonup> Runtime"
  rsSuspended :: "Namespace \<rightharpoonup> Runtime"

text \<open>
  Modelled from the spec: the registry state and the verification functions are not
  under src/. This instance keeps the entities, nodes, node statuses and runtimes of
  section 3 in maps; a signed node's blob is a key of \<open>blobs\<close>, every runtime a node
  lists is paid, a node is expired when its expiration is below the epoch, and the
  stake checks pass.
\<close>

definition memDeps :: "(nat \<rightharpoonup> Node) \<Rightarrow> ConsensusParameters \<Rightarrow> (RegState, unit) RegistryDeps" where
  "memDeps blobs params =
     \<lparr> cborUnmarshalNode = (\<lambda>b. case blobs b of Some n \<Rightarrow> Inr n | None \<Rightarrow> Inl (ErrOther 0)),
       stateEntity = (\<lambda>st k. case rsEntities st k of Some e \<Rightarrow> Inr e | None \<Rightarrow> Inl (ErrOther 1)),
       stateConsensusParameters = (\<lambda>st. Inr params),
       VerifyRegisterNodeArgs = (\<lambda>params sigNode ent isInitChain st.
          case blobs (Blob sigNode) of
            Some n \<Rightarrow> Inr (n, List.map_filter (\<lambda>nrt. rsRuntimes st (nrID nrt)) (Runtimes n))
          | None \<Rightarrow> Inl ErrInvalidArgument),
       stateRuntime = (\<lambda>st k. case rsRuntimes st k of Some r \<Rightarrow> Inr r | None \<Rightarrow> Inl ErrNoSuchRuntime),
       NewStakeCache = (\<lambda>st. Inr ()),
       EnsureSufficientStake = (\<lambda>c k kinds. None),
       EnsureNodeRegistrationStake = (\<lambda>c k n. None),
       stateNumEntityNodes = (\<lambda>st k. Inr 0),
       stateNode = (\<lambda>st k. case rsNodes st k of Some n \<Rightarrow> Inr n | None \<Rightarrow> Inl ErrNoSuchNode),
       IsExpired = (\<lambda>n epoch. Expiration n < epoch),
       VerifyNodeUpdate = (\<lambda>old new. if EntityID old = EntityID new then None else Some (ErrOther 2)),
       stateSetNode = (\<lambda>n sigNode st. (None, st\<lparr>rsNodes := (rsNodes st)(nodeID n \<mapsto> n)\<rparr>)),
       stateNodeStatus = (\<lambda>st k. case rsNodeStatuses st k of Some x \<Rightarrow> Inr x | None \<Rightarrow> Inl (ErrOther 3)),
       stateSetNodeStatus = (\<lambda>k x st. (None, st\<lparr>rsNodeStatuses := (rsNodeStatuses st)(k \<mapsto> x)\<rparr>)),
       stateResumeRuntime = (\<lambda>k st. case rsSuspended st k of
            Some r \<Rightarrow> (None, st\<lparr>rsSuspended := (rsSuspended st)(k := None),
                                 rsRuntimes := (rsRuntimes st)(k \<mapsto> r)\<rparr>)
          | None \<Rightarrow> (Some ErrNoSuchRuntime, st)),
       eventRuntimeRegistered = runtimeID,
       eventNodeRegistered = nodeID \<rparr>"

definition whitelistRT :: Runtime where
  "whitelistRT =
     \<lparr> runtimeID = 11, Kind = KindCompute, rtTEEHardware = TEEHardwareInvalid,
       AdmissionPolicy = \<lparr>AnyNode = None, EntityWhitelist = Some [1 \<mapsto> True]\<rparr> \<rparr>"

definition anyNodeRT :: Runtime where
  "anyNodeRT =
     \<lparr> runtimeID = 10, Kind = KindCompute, rtTEEHardware = TEEHardwareInvalid,
       AdmissionPolicy = \<lparr>AnyNode = Some (), EntityWhitelist = None\<rparr> \<rparr>"

definition demoNode :: "PublicKey \<Rightarrow> PublicKey \<Rightarrow> 64 word \<Rightarrow> Node" where
  "demoNode k ent expiration =
     \<lparr> nodeID = k, EntityID = ent, Expiration = expiration,
       Runtimes = [\<lparr>nrID = 11, nrCapabilitiesTEE = None, nrExtraInfo = 0\<rparr>], Roles = 1 \<rparr>"

definition demoBlobs :: "nat \<rightharpoonup> Node" where
  "demoBlobs = [0 \<mapsto> demoNode 100 1 12, 1 \<mapsto> demoNode 101 2 12, 2 \<mapsto> demoNode 102 1 3]"

definition demoParams :: ConsensusParameters where
  "demoParams =
     \<lparr> DebugBypassStake = False,
       GasCosts = (\<lambda>op. if op = GasOpRegisterNode then 500 else 3) \<rparr>"

definition demoDeps :: "(RegState, unit) RegistryDeps" where
  "demoDeps = memDeps demoBlobs demoParams"

definition brokenResumeDeps :: "(RegState, unit) RegistryDeps" where
  "brokenResumeDeps =
     demoDeps\<lparr>stateResumeRuntime := (\<lambda>k st. (Some (ErrOther 5), st\<lparr>rsSuspended := Map.empty\<rparr>))\<rparr>"

definition regState :: RegState where
  "regState =
     \<lparr> rsEntities =
         [1 \<mapsto> \<lparr>entityID = 1, AllowEntitySignedNodes = True, Nodes = []\<rparr>,
          2 \<mapsto> \<lparr>entityID = 2, AllowEntitySignedNodes = True, Nodes = []\<rparr>],
       rsNodes = Map.empty, rsNodeStatuses = Map.empty,
       rsRuntimes = [10 \<mapsto> anyNodeRT, 11 \<mapsto> whitelistRT],
       rsSuspended = Map.empty \<rparr>"

definition regStateLive :: RegState where
  "regStateLive = regState\<lparr>rsNodes := [100 \<mapsto> demoNode 100 1 10]\<rparr>"

definition regAppState :: "RegState \<Rightarrow> RegState ApplicationState" where
  "regAppState st =
     \<lparr> deliverTxTree = st, checkTxTree = st, initChainEvents = None, blockHeight = 4,
       txAuthHandler = None, timeSource = (\<lambda>h. Inr 3), haltMode = False,
       haltEpochHeight = 1000 \<rparr>"

definition regCtx :: "RegState \<Rightarrow> PublicKey \<Rightarrow> RegState Context" where
  "regCtx st signer =
     (NewContext ContextDeliverTx (regAppState st))\<lparr>ctxTxSigner := Some signer, ctxGasLimit := 10000\<rparr>"

text \<open>
  The gas registerNode has charged when it returns: the charge of an entity-signed
  registration (line 355), made when the arguments verify and the cap allows it, and
  the maintenance charge (line 458), made when every step before it succeeds and the
  cap allows it.
\<close>

definition registrationCharge :: "('st, 'c) RegistryDeps \<Rightarrow> 'st Context \<Rightarrow> SignedNode \<Rightarrow> nat" where
  "registrationCharge deps ctx sigNode =
     (case cborUnmarshalNode deps (Blob sigNode) of
        Inl err \<Rightarrow> 0
      | Inr untrustedNode \<Rightarrow>
     (case stateEntity deps (ctxState ctx) (EntityID untrustedNode) of
        Inl err \<Rightarrow> 0
      | Inr untrustedEntity \<Rightarrow>
     (case stateConsensusParameters deps (ctxState ctx) of
        Inl err \<Rightarrow> 0
      | Inr params \<Rightarrow>
     (case VerifyRegisterNodeArgs deps params sigNode untrustedEntity (IsInitChain ctx)
             (ctxState ctx) of
        Inl err \<Rightarrow> 0
      | Inr (newNode, paidRuntimes) \<Rightarrow>
          if SignaturePublicKey sigNode = EntityID newNode
             \<and> ctxGasUsed ctx + GasCosts params GasOpRegisterNode \<le> ctxGasLimit ctx
          then GasCosts params GasOpRegisterNode else 0))))"

definition maintenanceCharge ::
  "('st, 'c) RegistryDeps \<Rightarrow> 'st ApplicationState \<Rightarrow> 'st Context \<Rightarrow> SignedNode \<Rightarrow> nat" where
  "maintenanceCharge deps appState ctx sigNode =
     (case registerNode_args deps ctx sigNode of
        (Inl err, ctx1) \<Rightarrow> 0
      | (Inr (params, newNode, paidRuntimes), ctx1) \<Rightarrow>
     (case checkWhitelist deps (ctxState ctx) newNode (Runtimes newNode) of
        Some err \<Rightarrow> 0
      | None \<Rightarrow>
     (case recheckStake deps params (ctxState ctx) newNode of
        Inl err \<Rightarrow> 0
      | Inr stake \<Rightarrow>
     (case timeSource appState (ctxBlockHeight ctx + 1) of
        Inl err \<Rightarrow> 0
      | Inr epoch \<Rightarrow>
          if Expiration newNode \<le> epoch then 0
          else
     (case lookupNode deps (ctxState ctx) newNode epoch of
        Inl err \<Rightarrow> 0
      | Inr ex \<Rightarrow>
          (let amount = GasCosts params GasOpRuntimeEpochMaintenance
                          * nat (feeCount paidRuntimes (additionalEpochs newNode ex epoch))
           in if ctxGasUsed ctx + registrationCharge deps ctx sigNode + amount \<le> ctxGasLimit ctx
              then amount else 0))))))"

definition bigNode :: Node where
  "bigNode =
     \<lparr> nodeID = 103, EntityID = 1, Expiration = 9223372036854775811,
       Runtimes = [\<lparr>nrID = 11, nrCapabilitiesTEE = None, nrExtraInfo = 0\<rparr>,
                   \<lparr>nrID = 10, nrCapabilitiesTEE = None, nrExtraInfo = 0\<rparr>],
       Roles = 1 \<rparr>"

definition overflowDeps :: "(RegState, unit) RegistryDeps" where
  "overflowDeps = memDeps [3 \<mapsto> bigNode] demoParams"

section \<open>Properties\<close>

subsection \<open>Halt epoch\<close>

text \<open>
  C4. When the multiplexer is not yet in halt mode and the epoch the time source gives
  for the next block height equals the configured halt epoch, BeginBlock enters halt
  mode, runs every halt hook in registration order and returns an empty response. While
  halt mode holds, a BeginBlock whose next-height epoch is at most the halt epoch (or
  cannot be read) returns an empty response and calls nothing, decodeTx rejects every
  transaction (so CheckTx and DeliverTx fail without calling any application), and
  EndBlock returns the empty response. When the next-height epoch is strictly greater
  than the halt epoch, BeginBlock panics. The engine does not repeat BeginBlock for a
  height (\<open>lastBeginBlock\<close> differs from the height), as the source's own check
  demands.
\<close>

theorem halt_epoch_behaviour:
  fixes mux :: "'st abciMux"
  defines "s \<equiv> muxState mux"
  defines "h \<equiv> blockHeight (muxState mux)"
  defines "epoch \<equiv> timeSource (muxState mux) (blockHeight (muxState mux) + 1)"
  shows
  "(lastBeginBlock mux \<noteq> h \<and> \<not> haltMode s \<and> epoch = Inr (haltEpochHeight s) \<longrightarrow>
      abciMux_BeginBlock mux =
        (Inr [],
         mux\<lparr>lastBeginBlock := h, muxState := s\<lparr>haltMode := True\<rparr>,
             calls := calls mux @
               map (\<lambda>hook. CallHaltHook hook h (haltEpochHeight s)) (haltHooks mux)\<rparr>))
   \<and> (haltMode s \<longrightarrow>
        (lastBeginBlock mux \<noteq> h \<and> (\<exists>e. epoch = Inr e \<and> e \<le> haltEpochHeight s) \<longrightarrow>
           abciMux_BeginBlock mux = (Inr [], mux\<lparr>lastBeginBlock := h\<rparr>))
      \<and> (lastBeginBlock mux \<noteq> h \<and> (\<exists>err. epoch = Inl err) \<longrightarrow>
           abciMux_BeginBlock mux = (Inr [], mux\<lparr>lastBeginBlock := h\<rparr>))
      \<and> (\<forall>rawTx. decodeTx mux rawTx = Inl ErrHaltMode)
      \<and> (\<forall>req. fst (abciMux_CheckTx mux req) = (Some ErrHaltMode, 0) \<and>
                 calls (snd (abciMux_CheckTx mux req)) = calls mux)
      \<and> (\<forall>rawTx. abciMux_DeliverTx mux rawTx = ((Some ErrHaltMode, [], 0), mux))
      \<and> abciMux_EndBlock mux = (Inr \<lparr>ValidatorUpdates = [], Events = []\<rparr>, mux)
      \<and> (lastBeginBlock mux \<noteq> h \<and> (\<exists>e. epoch = Inr e \<and> e > haltEpochHeight s) \<longrightarrow>
           abciMux_BeginBlock mux =
             (Inl (Panic ''tendermint: after halt epoch, halting''), mux\<lparr>lastBeginBlock := h\<rparr>))
      \<and> ((\<exists>e. epoch = Inr e \<and> e > haltEpochHeight s) \<longrightarrow>
           (\<exists>msg. fst (abciMux_BeginBlock mux) = Inl (Panic msg))))"
  unfolding s_def h_def epoch_def
  apply (intro conjI impI allI)
  apply (simp add: abciMux_BeginBlock_def BlockHeight_def GetEpoch_def inHaltEpoch_def NewContext_def Let_def)
  apply (auto simp add: abciMux_BeginBlock_def BlockHeight_def GetEpoch_def afterHaltEpoch_def Let_def)[1]
  apply (auto simp add: abciMux_BeginBlock_def BlockHeight_def GetEpoch_def afterHaltEpoch_def Let_def)[1]
  apply (simp add: decodeTx_def)
  apply (simp add: abciMux_CheckTx_def executeTx_def decodeTx_def NewContext_def Let_def)
  apply (simp add: abciMux_CheckTx_def executeTx_def decodeTx_def NewContext_def Let_def split: CheckTxType.splits option.splits)
  apply (simp add: abciMux_DeliverTx_def executeTx_def decodeTx_def NewContext_def storeCursor_def Let_def)
  apply (simp add: abciMux_EndBlock_def)
  apply (auto simp add: abciMux_BeginBlock_def BlockHeight_def GetEpoch_def afterHaltEpoch_def Let_def)
  done

text \<open>
  The theorem at a multiplexer with halt epoch 3 whose next block (height 5) starts
  epoch 3, at the multiplexer this BeginBlock leaves behind, at that multiplexer one
  block later (height 6 is still in epoch 3: an empty block again), and four blocks
  later, when height 10 starts epoch 4.
\<close>

theorem halt_epoch_behaviour_witness:
  "abciMux_BeginBlock demoMux = (Inr [], haltedMux)
   \<and> decodeTx haltedMux [1, 2] = Inl ErrHaltMode
   \<and> abciMux_DeliverTx haltedMux [1, 2] = ((Some ErrHaltMode, [], 0), haltedMux)
   \<and> abciMux_EndBlock haltedMux = (Inr \<lparr>ValidatorUpdates = [], Events = []\<rparr>, haltedMux)
   \<and> abciMux_BeginBlock haltedMuxNext = (Inr [], haltedMuxNext\<lparr>lastBeginBlock := 5\<rparr>)
   \<and> abciMux_BeginBlock pastHaltMux
       = (Inl (Panic ''tendermint: after halt epoch, halting''), pastHaltMux\<lparr>lastBeginBlock := 9\<rparr>)"
  using halt_epoch_behaviour [of demoMux] halt_epoch_behaviour [of haltedMux]
    halt_epoch_behaviour [of haltedMuxNext] halt_epoch_behaviour [of pastHaltMux]
  by (simp add: demoMux_def haltedMux_def haltedMuxNext_def pastHaltMux_def)

subsection \<open>Mempool invalidation\<close>

text \<open>What CheckTx does to the channels, to the subscriptions and to the hash function.\<close>

lemma CheckTx_channels:
  "channels (snd (abciMux_CheckTx mux req)) =
     (case fst (fst (abciMux_CheckTx mux req)) of
        None \<Rightarrow> channels mux
      | Some err \<Rightarrow>
          if Type req = CheckTxType_Recheck then
            (case invalidatedTxs mux (hashFromBytes mux (Tx req)) of
               None \<Rightarrow> channels mux
             | Some sub \<Rightarrow>
                 (case channels mux sub of
                    None \<Rightarrow> channels mux
                  | Some ch \<Rightarrow> (channels mux)(sub \<mapsto> closeChan (trySend err ch))))
          else channels mux)"
  by (simp add: abciMux_CheckTx_def Let_def split: prod.splits option.splits)

lemma CheckTx_invalidatedTxs:
  "invalidatedTxs (snd (abciMux_CheckTx mux req)) =
     (case fst (fst (abciMux_CheckTx mux req)) of
        None \<Rightarrow> invalidatedTxs mux
      | Some err \<Rightarrow>
          if Type req = CheckTxType_Recheck then
            (case invalidatedTxs mux (hashFromBytes mux (Tx req)) of
               None \<Rightarrow> invalidatedTxs mux
             | Some sub \<Rightarrow> (invalidatedTxs mux)(hashFromBytes mux (Tx req) := None))
          else invalidatedTxs mux)"
  by (auto simp add: abciMux_CheckTx_def Let_def split: prod.splits option.splits)

lemma CheckTx_hashFromBytes:
  "hashFromBytes (snd (abciMux_CheckTx mux req)) = hashFromBytes mux"
  by (simp add: abciMux_CheckTx_def Let_def split: prod.splits option.splits)

text \<open>
  C5, as the claim states it, fails: a CheckTx in the Recheck sub-mode fails for a
  transaction whose hash has a subscriber, and the subscriber's channel ends closed with
  nothing received, because no receiver was blocked on the channel when the
  non-blocking send ran.
\<close>

theorem recheck_exactly_once_counterexample:
  "fst (fst (abciMux_CheckTx (recheckMux False) \<lparr>Tx = [1, 2], Type = CheckTxType_Recheck\<rparr>)) = Some ErrInvalidArgument
   \<and> invalidatedTxs (recheckMux False) (hashFromBytes (recheckMux False) [1, 2]) = Some 0
   \<and> channels (snd (abciMux_CheckTx (recheckMux False) \<lparr>Tx = [1, 2], Type = CheckTxType_Recheck\<rparr>)) 0
       = Some \<lparr>receiverWaiting = False, received = [], closed = True\<rparr>
   \<and> length (received (the (channels (snd (abciMux_CheckTx (recheckMux False) \<lparr>Tx = [1, 2], Type = CheckTxType_Recheck\<rparr>)) 0))) \<noteq> 1"
  by (simp add: recheckMux_def demoMux_def failingApp_def demoApp_def abciMux_CheckTx_def executeTx_def
      decodeTx_def processTx_def NewContext_def storeCursor_def Let_def trySend_def closeChan_def)

text \<open>
  C5, amended. If CheckTx fails with \<open>err\<close> in the Recheck sub-mode and a subscriber is
  registered for the transaction's hash, the error is delivered at most once: exactly
  once when a receiver is blocked on the (open) channel at that moment, and not at all
  otherwise. In both cases the channel is closed and the subscription removed, and a
  later CheckTx of a transaction with that hash changes no channel.
\<close>

theorem recheck_notifies_at_most_once:
  assumes "Type req = CheckTxType_Recheck"
    and "fst (fst (abciMux_CheckTx mux req)) = Some err"
    and "invalidatedTxs mux (hashFromBytes mux (Tx req)) = Some sub"
    and "channels mux sub = Some ch"
  shows "\<exists>ch'. channels (snd (abciMux_CheckTx mux req)) sub = Some ch'
           \<and> received ch' =
               received ch @ (if receiverWaiting ch \<and> \<not> closed ch then [err] else [])
           \<and> closed ch'
           \<and> invalidatedTxs (snd (abciMux_CheckTx mux req)) (hashFromBytes mux (Tx req)) = None
           \<and> (\<forall>req'. hashFromBytes mux (Tx req') = hashFromBytes mux (Tx req) \<longrightarrow>
                 channels (snd (abciMux_CheckTx (snd (abciMux_CheckTx mux req)) req'))
                   = channels (snd (abciMux_CheckTx mux req)))"
proof -
  let ?mux' = "snd (abciMux_CheckTx mux req)"
  have ch: "channels ?mux' = (channels mux)(sub \<mapsto> closeChan (trySend err ch))"
    using assms by (simp add: CheckTx_channels)
  have inv: "invalidatedTxs ?mux' = (invalidatedTxs mux)(hashFromBytes mux (Tx req) := None)"
    using assms by (simp add: CheckTx_invalidatedTxs)
  have later: "channels (snd (abciMux_CheckTx ?mux' req')) = channels ?mux'"
    if "hashFromBytes mux (Tx req') = hashFromBytes mux (Tx req)" for req'
    using that inv
    by (simp add: CheckTx_channels [of ?mux'] CheckTx_hashFromBytes split: option.splits)
  show ?thesis
    using ch inv later by (simp add: closeChan_def trySend_def)
qed

text \<open>The theorem at a subscriber that is blocked on its channel: one error arrives.\<close>

theorem recheck_notifies_at_most_once_witness:
  "received (the (channels (snd (abciMux_CheckTx (recheckMux True) \<lparr>Tx = [1, 2], Type = CheckTxType_Recheck\<rparr>)) 0))
     = [ErrInvalidArgument]"
  using recheck_notifies_at_most_once [of "\<lparr>Tx = [1, 2], Type = CheckTxType_Recheck\<rparr>" "recheckMux True" ErrInvalidArgument 0
      "\<lparr>receiverWaiting = True, received = [], closed = False\<rparr>"]
  by (simp add: recheckMux_def demoMux_def failingApp_def demoApp_def abciMux_CheckTx_def executeTx_def
      decodeTx_def processTx_def NewContext_def storeCursor_def Let_def trySend_def closeChan_def)

subsection \<open>Dispatch order\<close>

text \<open>
  Each dispatch loop, when every hook succeeds and when the hook of one application
  fails after the hooks before it succeeded.
\<close>

lemma dispatchInitChain_ok:
  "hooksSucceed (map InitChain apps) ctx ctx' \<Longrightarrow>
     dispatchInitChain apps ctx cs = (Inr ctx', cs @ map CallInitChain (map Name apps))"
  by (induction apps arbitrary: ctx cs) (auto split: prod.splits option.splits)

lemma dispatchInitChain_err:
  "hooksSucceed (map InitChain pre) ctx ctx1 \<Longrightarrow> fst (InitChain app ctx1) = Some err \<Longrightarrow>
     dispatchInitChain (pre @ app # post) ctx cs =
       (Inl (Panic (''mux: InitChain: fatal error in application: '' @ Name app)),
        cs @ map CallInitChain (map Name pre) @ [CallInitChain (Name app)])"
  by (induction pre arbitrary: ctx cs) (auto split: prod.splits option.splits)

lemma dispatchBeginBlock_ok:
  "hooksSucceed (map BeginBlock apps) ctx ctx' \<Longrightarrow>
     dispatchBeginBlock apps ctx cs = (Inr ctx', cs @ map CallBeginBlock (map Name apps))"
  by (induction apps arbitrary: ctx cs) (auto split: prod.splits option.splits)

lemma dispatchBeginBlock_err:
  "hooksSucceed (map BeginBlock pre) ctx ctx1 \<Longrightarrow> fst (BeginBlock app ctx1) = Some err \<Longrightarrow>
     dispatchBeginBlock (pre @ app # post) ctx cs =
       (Inl (Panic (''mux: BeginBlock: fatal error in application: '' @ Name app)),
        cs @ map CallBeginBlock (map Name pre) @ [CallBeginBlock (Name app)])"
  by (induction pre arbitrary: ctx cs) (auto split: prod.splits option.splits)

lemma dispatchFireTimers_ok:
  "hooksSucceed (map FireTimers apps) ctx ctx' \<Longrightarrow>
     dispatchFireTimers apps ctx cs = (Inr ctx', cs @ map CallFireTimers (map Name apps))"
  by (induction apps arbitrary: ctx cs) (auto split: prod.splits option.splits)

lemma dispatchFireTimers_err:
  "hooksSucceed (map FireTimers pre) ctx ctx1 \<Longrightarrow> fst (FireTimers app ctx1) = Some err \<Longrightarrow>
     dispatchFireTimers (pre @ app # post) ctx cs =
       (Inl (Panic (''mux: EndBlock: fatal error in application: '' @ Name app)),
        cs @ map CallFireTimers (map Name pre) @ [CallFireTimers (Name app)])"
  by (induction pre arbitrary: ctx cs) (auto split: prod.splits option.splits)

lemma dispatchEndBlock_ok:
  "hooksSucceed (map endBlockHook apps) ctx ctx' \<Longrightarrow>
     \<exists>resp'. dispatchEndBlock apps ctx resp cs =
       (Inr (resp', ctx'), cs @ map CallEndBlock (map Name apps))"
proof (induction apps arbitrary: ctx resp cs)
  case Nil
  then show ?case by simp
next
  case (Cons a apps)
  obtain r e c where eb: "EndBlock a ctx = ((r, e), c)"
    by (metis prod.exhaust)
  have hook: "endBlockHook a ctx = (e, c)"
    using eb by (simp add: endBlockHook_def)
  from Cons.prems have "case endBlockHook a ctx of
      (None, c) \<Rightarrow> hooksSucceed (map endBlockHook apps) c ctx' | (Some err, c) \<Rightarrow> False"
    by simp
  with hook have e: "e = None" and rest: "hooksSucceed (map endBlockHook apps) c ctx'"
    by (auto split: option.splits)
  from Cons.IH [OF rest, of "if Blessed a then r else resp" "cs @ [CallEndBlock (Name a)]"]
  show ?case using eb e by simp
qed

lemma dispatchEndBlock_err:
  "hooksSucceed (map endBlockHook pre) ctx ctx1 \<Longrightarrow> snd (fst (EndBlock app ctx1)) = Some err \<Longrightarrow>
     dispatchEndBlock (pre @ app # post) ctx resp cs =
       (Inl (Panic (''mux: EndBlock: fatal error in application: '' @ Name app)),
        cs @ map CallEndBlock (map Name pre) @ [CallEndBlock (Name app)])"
proof (induction pre arbitrary: ctx resp cs)
  case Nil
  then show ?case by (auto split: prod.splits option.splits)
next
  case (Cons a pre)
  obtain r e c where eb: "EndBlock a ctx = ((r, e), c)"
    by (metis prod.exhaust)
  have hook: "endBlockHook a ctx = (e, c)"
    using eb by (simp add: endBlockHook_def)
  from Cons.prems(1) have "case endBlockHook a ctx of
      (None, c) \<Rightarrow> hooksSucceed (map endBlockHook pre) c ctx1 | (Some err, c) \<Rightarrow> False"
    by simp
  with hook have e: "e = None" and rest: "hooksSucceed (map endBlockHook pre) c ctx1"
    by (auto split: option.splits)
  from Cons.IH [OF rest Cons.prems(2), of "if Blessed a then r else resp" "cs @ [CallEndBlock (Name a)]"]
  show ?case using eb e by simp
qed

lemma dispatchForeign_filter:
  "dispatchForeignExecuteTx apps app tx ctx cs =
     dispatchForeignExecuteTx (filter (\<lambda>f. Name f \<noteq> Name app) apps) app tx ctx cs"
  by (induction apps arbitrary: ctx cs) (auto split: prod.splits option.splits)

lemma dispatchForeign_ok:
  "\<forall>f \<in> set others. Name f \<noteq> Name app \<Longrightarrow>
   hooksSucceed (map (\<lambda>f. ForeignExecuteTx f (Name app) tx) others) ctx ctx' \<Longrightarrow>
     dispatchForeignExecuteTx others app tx ctx cs =
       ((None, ctx'), cs @ map (\<lambda>f. CallForeignExecuteTx (Name f) (Name app)) others)"
  by (induction others arbitrary: ctx cs) (auto split: prod.splits option.splits)

lemma dispatchForeign_err:
  "\<forall>f \<in> set (pre @ [f]). Name f \<noteq> Name app \<Longrightarrow>
   hooksSucceed (map (\<lambda>f. ForeignExecuteTx f (Name app) tx) pre) ctx ctx1 \<Longrightarrow>
   ForeignExecuteTx f (Name app) tx ctx1 = (Some err, ctx2) \<Longrightarrow>
     dispatchForeignExecuteTx (pre @ f # post) app tx ctx cs =
       ((Some err, ctx2),
        cs @ map (\<lambda>f. CallForeignExecuteTx (Name f) (Name app)) (pre @ [f]))"
  by (induction pre arbitrary: ctx cs) (auto split: prod.splits option.splits)

text \<open>The registration invariant and what keeps it.\<close>

lemma map_filter_map_of_names:
  "set ks \<subseteq> fst ` set al \<Longrightarrow> \<forall>(n, app) \<in> set al. Name app = n \<Longrightarrow>
     map Name (List.map_filter (map_of al) ks) = ks"
proof (induction ks)
  case Nil
  then show ?case by (simp add: List.map_filter_simps)
next
  case (Cons k ks)
  from Cons.prems(1) have "k \<in> fst ` set al" by simp
  then obtain app where app: "map_of al k = Some app"
    by (metis map_of_eq_None_iff not_Some_eq)
  then have "(k, app) \<in> set al" by (rule map_of_SomeD)
  with Cons.prems(2) have "Name app = k" by auto
  with app Cons show ?case by (simp add: List.map_filter_simps)
qed

lemma appsRegistered_names:
  assumes "appsRegistered mux"
  shows "\<exists>k \<le> length (appsByName mux).
           map Name (appsByLexOrder mux) = sort (map fst (take k (appsByName mux)))"
proof -
  from assms obtain k where k: "k \<le> length (appsByName mux)"
    and lex: "appsByLexOrder mux =
          List.map_filter (map_of (take k (appsByName mux)))
            (sort (map fst (take k (appsByName mux))))"
    and own: "\<forall>(n, app) \<in> set (appsByName mux). Name app = n"
    by (auto simp add: appsRegistered_def)
  from own have "\<forall>(n, app) \<in> set (take k (appsByName mux)). Name app = n"
    by (meson in_set_takeD)
  then have "map Name (appsByLexOrder mux) = sort (map fst (take k (appsByName mux)))"
    unfolding lex by (intro map_filter_map_of_names) auto
  with k show ?thesis by blast
qed

lemma appsRegistered_order:
  assumes "appsRegistered mux"
  shows "sorted (map Name (appsByLexOrder mux)) \<and> distinct (map Name (appsByLexOrder mux))
         \<and> set (map Name (appsByLexOrder mux)) \<subseteq> fst ` set (appsByName mux)"
proof -
  from appsRegistered_names [OF assms] obtain k where
    names: "map Name (appsByLexOrder mux) = sort (map fst (take k (appsByName mux)))"
    by blast
  from assms have "distinct (map fst (appsByName mux))"
    by (simp add: appsRegistered_def)
  then have "distinct (take k (map fst (appsByName mux)))"
    by (rule distinct_take)
  then have d: "distinct (map fst (take k (appsByName mux)))"
    by (simp add: take_map)
  have "set (map fst (take k (appsByName mux))) \<subseteq> fst ` set (appsByName mux)"
    using set_take_subset [of k "appsByName mux"] by auto
  with d show ?thesis unfolding names by simp
qed

lemma doRegister_cases:
  "doRegister mux app = (e, mux') \<Longrightarrow>
     (mux' = mux \<and> e \<noteq> None) \<or>
     (map_of (appsByName mux) (Name app) = None \<and>
      appsByName mux' = appsByName mux @ [(Name app, app)] \<and>
      (if e = None
       then appsByLexOrder mux' =
              List.map_filter (map_of (appsByName mux')) (sort (map fst (appsByName mux')))
       else appsByLexOrder mux' = appsByLexOrder mux))"
  by (auto simp add: doRegister_def Let_def rebuildAppLexOrdering_def
      split: if_splits prod.splits option.splits)

lemma doRegister_appsRegistered:
  assumes reg: "appsRegistered mux"
  shows "appsRegistered (snd (doRegister mux app))"
proof -
  obtain e mux' where r: "doRegister mux app = (e, mux')"
    by (metis prod.exhaust)
  from doRegister_cases [OF r] have "appsRegistered mux'"
  proof
    assume "mux' = mux \<and> e \<noteq> None"
    with reg show ?thesis by simp
  next
    assume c: "map_of (appsByName mux) (Name app) = None \<and>
      appsByName mux' = appsByName mux @ [(Name app, app)] \<and>
      (if e = None
       then appsByLexOrder mux' =
              List.map_filter (map_of (appsByName mux')) (sort (map fst (appsByName mux')))
       else appsByLexOrder mux' = appsByLexOrder mux)"
    then have fresh: "Name app \<notin> fst ` set (appsByName mux)"
      by (simp add: map_of_eq_None_iff)
    from reg fresh c have base: "distinct (map fst (appsByName mux')) \<and>
        (\<forall>(n, app) \<in> set (appsByName mux'). Name app = n)"
      by (auto simp add: appsRegistered_def)
    show ?thesis
    proof (cases "e = None")
      case True
      with c have "appsByLexOrder mux' =
          List.map_filter (map_of (take (length (appsByName mux')) (appsByName mux')))
            (sort (map fst (take (length (appsByName mux')) (appsByName mux'))))"
        by simp
      with base show ?thesis
        unfolding appsRegistered_def by blast
    next
      case False
      from reg obtain k where k: "k \<le> length (appsByName mux)"
        and lex: "appsByLexOrder mux =
          List.map_filter (map_of (take k (appsByName mux)))
            (sort (map fst (take k (appsByName mux))))"
        by (auto simp add: appsRegistered_def)
      from k c have "take k (appsByName mux') = take k (appsByName mux)"
        by simp
      with False c lex k have "k \<le> length (appsByName mux') \<and> appsByLexOrder mux' =
          List.map_filter (map_of (take k (appsByName mux')))
            (sort (map fst (take k (appsByName mux'))))"
        by simp
      with base show ?thesis
        unfolding appsRegistered_def by blast
    qed
  qed
  with r show ?thesis by simp
qed

lemma doRegister_all_names:
  assumes reg: "appsRegistered mux" and ok: "fst (doRegister mux app) = None"
  shows "appsByName (snd (doRegister mux app)) = appsByName mux @ [(Name app, app)] \<and>
         map Name (appsByLexOrder (snd (doRegister mux app)))
           = sort (map fst (appsByName (snd (doRegister mux app))))"
proof -
  obtain mux' where r: "doRegister mux app = (None, mux')"
    using ok by (metis prod.collapse)
  from doRegister_cases [OF r] have c: "map_of (appsByName mux) (Name app) = None"
    and byName: "appsByName mux' = appsByName mux @ [(Name app, app)]"
    and lex: "appsByLexOrder mux' =
              List.map_filter (map_of (appsByName mux')) (sort (map fst (appsByName mux')))"
    by auto
  from doRegister_appsRegistered [OF reg, of app] r have "appsRegistered mux'"
    by simp
  then have "\<forall>(n, app) \<in> set (appsByName mux'). Name app = n"
    by (simp add: appsRegistered_def)
  then have "map Name (appsByLexOrder mux') = sort (map fst (appsByName mux'))"
    unfolding lex by (intro map_filter_map_of_names) auto
  with byName r show ?thesis by simp
qed

lemma empty_appsRegistered:
  "appsByName mux = [] \<Longrightarrow> appsByLexOrder mux = [] \<Longrightarrow> appsRegistered mux"
  by (simp add: appsRegistered_def List.map_filter_simps)

lemma InitChain_keeps_apps:
  "appsByName (snd (abciMux_InitChain mux st)) = appsByName mux \<and>
   appsByLexOrder (snd (abciMux_InitChain mux st)) = appsByLexOrder mux"
  by (simp add: abciMux_InitChain_def Let_def split: option.splits prod.splits sum.splits)

lemma BeginBlock_keeps_apps:
  "appsByName (snd (abciMux_BeginBlock mux)) = appsByName mux \<and>
   appsByLexOrder (snd (abciMux_BeginBlock mux)) = appsByLexOrder mux"
  by (auto simp add: abciMux_BeginBlock_def Let_def
      split: if_splits option.splits prod.splits sum.splits bool.splits)

lemma EndBlock_keeps_apps:
  "appsByName (snd (abciMux_EndBlock mux)) = appsByName mux \<and>
   appsByLexOrder (snd (abciMux_EndBlock mux)) = appsByLexOrder mux"
  by (simp add: abciMux_EndBlock_def Let_def split: option.splits prod.splits sum.splits)

lemma CheckTx_keeps_apps:
  "appsByName (snd (abciMux_CheckTx mux req)) = appsByName mux \<and>
   appsByLexOrder (snd (abciMux_CheckTx mux req)) = appsByLexOrder mux"
  by (simp add: abciMux_CheckTx_def Let_def split: option.splits prod.splits)

lemma DeliverTx_keeps_apps:
  "appsByName (snd (abciMux_DeliverTx mux rawTx)) = appsByName mux \<and>
   appsByLexOrder (snd (abciMux_DeliverTx mux rawTx)) = appsByLexOrder mux"
  by (simp add: abciMux_DeliverTx_def Let_def split: option.splits prod.splits)

lemma appsRegistered_cong:
  "appsByName mux' = appsByName mux \<and> appsByLexOrder mux' = appsByLexOrder mux \<Longrightarrow>
     appsRegistered mux' = appsRegistered mux"
  by (simp add: appsRegistered_def)

text \<open>The ABCI calls of the multiplexer, on success and at the first error.\<close>

lemma InitChain_ok:
  assumes "hooksSucceed (map InitChain (appsByLexOrder mux))
             (NewContext ContextInitChain (muxState mux)) ctx'"
  shows "fst (abciMux_InitChain mux (Some n)) = Inr () \<and>
         calls (snd (abciMux_InitChain mux (Some n))) =
           calls mux @ map CallGenesisHook (genesisHooks mux)
             @ map CallInitChain (map Name (appsByLexOrder mux))"
  by (simp add: abciMux_InitChain_def Let_def dispatchInitChain_ok [OF assms])

lemma InitChain_err:
  assumes "appsByLexOrder mux = pre @ app # post"
    and "hooksSucceed (map InitChain pre) (NewContext ContextInitChain (muxState mux)) ctx1"
    and "fst (InitChain app ctx1) = Some err"
  shows "fst (abciMux_InitChain mux (Some n))
           = Inl (Panic (''mux: InitChain: fatal error in application: '' @ Name app)) \<and>
         calls (snd (abciMux_InitChain mux (Some n))) =
           calls mux @ map CallGenesisHook (genesisHooks mux)
             @ map CallInitChain (map Name pre) @ [CallInitChain (Name app)]"
  by (simp add: abciMux_InitChain_def Let_def assms(1) dispatchInitChain_err [OF assms(2,3)])

lemma BeginBlock_ok:
  assumes "lastBeginBlock mux \<noteq> blockHeight (muxState mux)"
    and "\<not> haltMode (muxState mux)"
    and "timeSource (muxState mux) (blockHeight (muxState mux) + 1)
           \<noteq> Inr (haltEpochHeight (muxState mux))"
    and "hooksSucceed (map BeginBlock (appsByLexOrder mux))
             (NewContext ContextBeginBlock (muxState mux)) ctx'"
  shows "(\<exists>r. fst (abciMux_BeginBlock mux) = Inr r) \<and>
         calls (snd (abciMux_BeginBlock mux)) =
           calls mux @ map CallBeginBlock (map Name (appsByLexOrder mux))"
  using assms(1-3)
  by (auto simp add: abciMux_BeginBlock_def BlockHeight_def GetEpoch_def inHaltEpoch_def Let_def
      dispatchBeginBlock_ok [OF assms(4)] split: sum.splits option.splits)

lemma BeginBlock_err:
  assumes "lastBeginBlock mux \<noteq> blockHeight (muxState mux)"
    and "\<not> haltMode (muxState mux)"
    and "timeSource (muxState mux) (blockHeight (muxState mux) + 1)
           \<noteq> Inr (haltEpochHeight (muxState mux))"
    and "appsByLexOrder mux = pre @ app # post"
    and "hooksSucceed (map BeginBlock pre) (NewContext ContextBeginBlock (muxState mux)) ctx1"
    and "fst (BeginBlock app ctx1) = Some err"
  shows "fst (abciMux_BeginBlock mux)
           = Inl (Panic (''mux: BeginBlock: fatal error in application: '' @ Name app)) \<and>
         calls (snd (abciMux_BeginBlock mux)) =
           calls mux @ map CallBeginBlock (map Name pre) @ [CallBeginBlock (Name app)]"
  using assms(1-3)
  by (auto simp add: abciMux_BeginBlock_def BlockHeight_def GetEpoch_def inHaltEpoch_def Let_def
      assms(4) dispatchBeginBlock_err [OF assms(5,6)] split: sum.splits option.splits)

lemma EndBlock_ok:
  assumes "\<not> haltMode (muxState mux)"
    and "hooksSucceed (map FireTimers (appsByLexOrder mux))
             (NewContext ContextEndBlock (muxState mux)) ctx1"
    and "hooksSucceed (map endBlockHook (appsByLexOrder mux)) ctx1 ctx2"
  shows "(\<exists>r. fst (abciMux_EndBlock mux) = Inr r) \<and>
         calls (snd (abciMux_EndBlock mux)) =
           calls mux @ map CallFireTimers (map Name (appsByLexOrder mux))
             @ map CallEndBlock (map Name (appsByLexOrder mux))"
proof -
  from dispatchEndBlock_ok [OF assms(3)] obtain resp' where
    "dispatchEndBlock (appsByLexOrder mux) ctx1 \<lparr>ValidatorUpdates = [], Events = []\<rparr>
       (calls mux @ map CallFireTimers (map Name (appsByLexOrder mux))) =
     (Inr (resp', ctx2), (calls mux @ map CallFireTimers (map Name (appsByLexOrder mux)))
        @ map CallEndBlock (map Name (appsByLexOrder mux)))"
    by blast
  with assms(1) show ?thesis
    by (simp add: abciMux_EndBlock_def Let_def dispatchFireTimers_ok [OF assms(2)])
qed

lemma EndBlock_timer_err:
  assumes "\<not> haltMode (muxState mux)"
    and "appsByLexOrder mux = pre @ app # post"
    and "hooksSucceed (map FireTimers pre) (NewContext ContextEndBlock (muxState mux)) ctx1"
    and "fst (FireTimers app ctx1) = Some err"
  shows "fst (abciMux_EndBlock mux)
           = Inl (Panic (''mux: EndBlock: fatal error in application: '' @ Name app)) \<and>
         calls (snd (abciMux_EndBlock mux)) =
           calls mux @ map CallFireTimers (map Name pre) @ [CallFireTimers (Name app)]"
  using assms(1)
  by (simp add: abciMux_EndBlock_def Let_def assms(2) dispatchFireTimers_err [OF assms(3,4)])

lemma EndBlock_err:
  assumes "\<not> haltMode (muxState mux)"
    and "hooksSucceed (map FireTimers (appsByLexOrder mux))
             (NewContext ContextEndBlock (muxState mux)) ctx1"
    and "appsByLexOrder mux = pre @ app # post"
    and "hooksSucceed (map endBlockHook pre) ctx1 ctx2"
    and "snd (fst (EndBlock app ctx2)) = Some err"
  shows "fst (abciMux_EndBlock mux)
           = Inl (Panic (''mux: EndBlock: fatal error in application: '' @ Name app)) \<and>
         calls (snd (abciMux_EndBlock mux)) =
           calls mux @ map CallFireTimers (map Name (appsByLexOrder mux))
             @ map CallEndBlock (map Name pre) @ [CallEndBlock (Name app)]"
proof -
  have "dispatchEndBlock (appsByLexOrder mux) ctx1 \<lparr>ValidatorUpdates = [], Events = []\<rparr>
       (calls mux @ map CallFireTimers (map Name (appsByLexOrder mux))) =
     (Inl (Panic (''mux: EndBlock: fatal error in application: '' @ Name app)),
      (calls mux @ map CallFireTimers (map Name (appsByLexOrder mux)))
        @ map CallEndBlock (map Name pre) @ [CallEndBlock (Name app)])"
    unfolding assms(3) by (rule dispatchEndBlock_err [OF assms(4,5)])
  with assms(1) show ?thesis
    by (simp add: abciMux_EndBlock_def Let_def dispatchFireTimers_ok [OF assms(2)])
qed

lemma processTx_ok:
  assumes "authenticated mux tx ctx ctx1"
    and "map_of (appsByMethod mux) (Method tx) = Some app"
    and "ExecuteTx app tx ctx1 = (None, ctx2)"
    and "hooksSucceed (map (\<lambda>f. ForeignExecuteTx f (Name app) tx)
           (filter (\<lambda>f. Name f \<noteq> Name app) (appsByLexOrder mux))) ctx2 ctx3"
  shows "processTx mux ctx tx cs =
           ((None, ctx3),
            cs @ authCalls mux @ CallExecuteTx (Name app)
              # map (\<lambda>f. CallForeignExecuteTx (Name f) (Name app))
                  (filter (\<lambda>f. Name f \<noteq> Name app) (appsByLexOrder mux)))"
proof -
  have "dispatchForeignExecuteTx (appsByLexOrder mux) app tx ctx2
          (cs @ authCalls mux @ [CallExecuteTx (Name app)]) =
        ((None, ctx3),
         (cs @ authCalls mux @ [CallExecuteTx (Name app)])
           @ map (\<lambda>f. CallForeignExecuteTx (Name f) (Name app))
               (filter (\<lambda>f. Name f \<noteq> Name app) (appsByLexOrder mux)))"
    by (subst dispatchForeign_filter, rule dispatchForeign_ok [OF _ assms(4)]) simp
  with assms(1-3) show ?thesis
    by (auto simp add: processTx_def authenticated_def authCalls_def split: option.splits)
qed

lemma processTx_foreign_err:
  assumes "authenticated mux tx ctx ctx1"
    and "map_of (appsByMethod mux) (Method tx) = Some app"
    and "ExecuteTx app tx ctx1 = (None, ctx2)"
    and "filter (\<lambda>f. Name f \<noteq> Name app) (appsByLexOrder mux) = pre @ f # post"
    and "hooksSucceed (map (\<lambda>f. ForeignExecuteTx f (Name app) tx) pre) ctx2 ctx3"
    and "ForeignExecuteTx f (Name app) tx ctx3 = (Some err, ctx4)"
  shows "processTx mux ctx tx cs =
           ((Some err, ctx4),
            cs @ authCalls mux @ CallExecuteTx (Name app)
              # map (\<lambda>f. CallForeignExecuteTx (Name f) (Name app)) (pre @ [f]))"
proof -
  have "\<forall>g \<in> set (filter (\<lambda>f. Name f \<noteq> Name app) (appsByLexOrder mux)). Name g \<noteq> Name app"
    by simp
  then have other: "\<forall>g \<in> set (pre @ [f]). Name g \<noteq> Name app"
    unfolding assms(4) by simp
  have "dispatchForeignExecuteTx (appsByLexOrder mux) app tx ctx2
          (cs @ authCalls mux @ [CallExecuteTx (Name app)]) =
        ((Some err, ctx4),
         (cs @ authCalls mux @ [CallExecuteTx (Name app)])
           @ map (\<lambda>f. CallForeignExecuteTx (Name f) (Name app)) (pre @ [f]))"
    by (subst dispatchForeign_filter, subst assms(4),
        rule dispatchForeign_err [OF other assms(5,6)])
  with assms(1-3) show ?thesis
    by (auto simp add: processTx_def authenticated_def authCalls_def split: option.splits)
qed

lemma processTx_execute_err:
  assumes "authenticated mux tx ctx ctx1"
    and "map_of (appsByMethod mux) (Method tx) = Some app"
    and "ExecuteTx app tx ctx1 = (Some err, ctx2)"
  shows "processTx mux ctx tx cs =
           ((Some err, ctx2), cs @ authCalls mux @ [CallExecuteTx (Name app)])"
  using assms
  by (auto simp add: processTx_def authenticated_def authCalls_def split: option.splits)

lemma processTx_unknown_method:
  assumes "authenticated mux tx ctx ctx1"
    and "map_of (appsByMethod mux) (Method tx) = None"
  shows "processTx mux ctx tx cs =
           ((Some (ErrUnknownMethod (Method tx)), ctx1), cs @ authCalls mux)"
  using assms
  by (auto simp add: processTx_def authenticated_def authCalls_def split: option.splits)

lemma processTx_auth_err:
  assumes "txAuthHandler (muxState mux) = Some AuthenticateTx"
    and "AuthenticateTx tx ctx = (Some err, ctx1)"
  shows "processTx mux ctx tx cs = ((Some err, ctx1), cs @ [CallAuthenticateTx])"
  using assms by (simp add: processTx_def)

lemmas demo_defs =
  threeAppMux_def twoAppMux_def runningMux_def demoMux_def demoApp_def failingApp_def demoCtx_def
  doRegister_def rebuildAppLexOrdering_def List.map_filter_simps Let_def

lemmas faulty_defs = faultyApp_def faultyMux_def authMux_def endBlockHook_def
  authenticated_def authCalls_def

text \<open>
  C6, as the claim states it, fails: with \<open>registry\<close> and \<open>staking\<close> registered, a
  transaction of a registry method whose ExecuteTx returns an error ends processTx at
  once, and \<open>staking\<close> receives no ForeignExecuteTx.
\<close>

theorem dispatch_every_other_counterexample:
  "map Name (appsByLexOrder twoAppMux) = [''registry'', ''staking'']
   \<and> map_of (appsByMethod twoAppMux) ''registry.RegisterNode''
       = Some (failingApp ''registry'' [''registry.RegisterNode''])
   \<and> processTx twoAppMux demoCtx \<lparr>Method = ''registry.RegisterNode'', Body = 0\<rparr> []
       = ((Some ErrInvalidArgument, demoCtx), [CallExecuteTx ''registry''])"
  by (simp add: demo_defs processTx_def NewContext_def)

text \<open>
  C6, amended. In a multiplexer reached by registrations from an empty one,
  \<open>appsByLexOrder\<close> lists registered applications, each once, in ascending
  lexicographic order of name; every registration, failed or not, and every ABCI call
  keeps this, and after a successful registration the list holds every registered
  application. InitChain, BeginBlock outside halt mode and outside the halt epoch, and
  EndBlock outside halt mode (timers first, then the EndBlock hooks) invoke the
  applications in that order: if every hook succeeds the call returns and has invoked
  every application exactly once; if the hook of an application fails after the hooks of
  those before it succeeded, the call panics naming that application, and has invoked
  exactly the applications up to and including it. processTx runs the authentication
  handler, then ExecuteTx of the application owning the method, then ForeignExecuteTx
  of every other application in that order: it returns success after all of them
  succeeded; an error of ExecuteTx is returned with no ForeignExecuteTx invoked; the
  first error of a ForeignExecuteTx hook is returned with no later application
  invoked; a method that no application owns is \<open>ErrUnknownMethod\<close> and a rejected
  authentication is returned, in both cases with no application invoked.
\<close>

theorem dispatch_in_lex_order:
  fixes mux :: "'st abciMux" and owner :: "'st Application"
  defines "apps \<equiv> appsByLexOrder mux"
  defines "names \<equiv> map Name (appsByLexOrder mux)"
  defines "others \<equiv> filter (\<lambda>f. Name f \<noteq> Name owner) (appsByLexOrder mux)"
  defines "running \<equiv>
     lastBeginBlock mux \<noteq> blockHeight (muxState mux) \<and> \<not> haltMode (muxState mux) \<and>
     timeSource (muxState mux) (blockHeight (muxState mux) + 1)
       \<noteq> Inr (haltEpochHeight (muxState mux))"
  shows
    "(appsByName mux = [] \<and> appsByLexOrder mux = [] \<longrightarrow> appsRegistered mux)
     \<and> (appsRegistered mux \<longrightarrow>
          sorted names \<and> distinct names \<and> set names \<subseteq> fst ` set (appsByName mux)
          \<and> (\<exists>k \<le> length (appsByName mux). names = sort (map fst (take k (appsByName mux))))
          \<and> appsRegistered (snd (doRegister mux newApp))
          \<and> (fst (doRegister mux newApp) = None \<longrightarrow>
                appsByName (snd (doRegister mux newApp)) = appsByName mux @ [(Name newApp, newApp)]
              \<and> map Name (appsByLexOrder (snd (doRegister mux newApp)))
                  = sort (map fst (appsByName (snd (doRegister mux newApp)))))
          \<and> appsRegistered (snd (abciMux_InitChain mux st))
          \<and> appsRegistered (snd (abciMux_BeginBlock mux))
          \<and> appsRegistered (snd (abciMux_CheckTx mux req))
          \<and> appsRegistered (snd (abciMux_DeliverTx mux rawTx))
          \<and> appsRegistered (snd (abciMux_EndBlock mux)))
     \<and> (hooksSucceed (map InitChain apps) (NewContext ContextInitChain (muxState mux)) c1 \<longrightarrow>
          fst (abciMux_InitChain mux (Some n)) = Inr () \<and>
          calls (snd (abciMux_InitChain mux (Some n))) =
            calls mux @ map CallGenesisHook (genesisHooks mux) @ map CallInitChain names)
     \<and> (apps = pre @ app # post \<and>
        hooksSucceed (map InitChain pre) (NewContext ContextInitChain (muxState mux)) c1 \<and>
        fst (InitChain app c1) = Some err \<longrightarrow>
          fst (abciMux_InitChain mux (Some n))
            = Inl (Panic (''mux: InitChain: fatal error in application: '' @ Name app)) \<and>
          calls (snd (abciMux_InitChain mux (Some n))) =
            calls mux @ map CallGenesisHook (genesisHooks mux)
              @ map CallInitChain (map Name pre) @ [CallInitChain (Name app)])
     \<and> (running \<and>
        hooksSucceed (map BeginBlock apps) (NewContext ContextBeginBlock (muxState mux)) c1 \<longrightarrow>
          (\<exists>r. fst (abciMux_BeginBlock mux) = Inr r) \<and>
          calls (snd (abciMux_BeginBlock mux)) = calls mux @ map CallBeginBlock names)
     \<and> (running \<and> apps = pre @ app # post \<and>
        hooksSucceed (map BeginBlock pre) (NewContext ContextBeginBlock (muxState mux)) c1 \<and>
        fst (BeginBlock app c1) = Some err \<longrightarrow>
          fst (abciMux_BeginBlock mux)
            = Inl (Panic (''mux: BeginBlock: fatal error in application: '' @ Name app)) \<and>
          calls (snd (abciMux_BeginBlock mux)) =
            calls mux @ map CallBeginBlock (map Name pre) @ [CallBeginBlock (Name app)])
     \<and> (\<not> haltMode (muxState mux) \<and>
        hooksSucceed (map FireTimers apps) (NewContext ContextEndBlock (muxState mux)) c1 \<and>
        hooksSucceed (map endBlockHook apps) c1 c2 \<longrightarrow>
          (\<exists>r. fst (abciMux_EndBlock mux) = Inr r) \<and>
          calls (snd (abciMux_EndBlock mux)) =
            calls mux @ map CallFireTimers names @ map CallEndBlock names)
     \<and> (\<not> haltMode (muxState mux) \<and> apps = pre @ app # post \<and>
        hooksSucceed (map FireTimers pre) (NewContext ContextEndBlock (muxState mux)) c1 \<and>
        fst (FireTimers app c1) = Some err \<longrightarrow>
          fst (abciMux_EndBlock mux)
            = Inl (Panic (''mux: EndBlock: fatal error in application: '' @ Name app)) \<and>
          calls (snd (abciMux_EndBlock mux)) =
            calls mux @ map CallFireTimers (map Name pre) @ [CallFireTimers (Name app)])
     \<and> (\<not> haltMode (muxState mux) \<and>
        hooksSucceed (map FireTimers apps) (NewContext ContextEndBlock (muxState mux)) c1 \<and>
        apps = pre @ app # post \<and> hooksSucceed (map endBlockHook pre) c1 c2 \<and>
        snd (fst (EndBlock app c2)) = Some err \<longrightarrow>
          fst (abciMux_EndBlock mux)
            = Inl (Panic (''mux: EndBlock: fatal error in application: '' @ Name app)) \<and>
          calls (snd (abciMux_EndBlock mux)) =
            calls mux @ map CallFireTimers names
              @ map CallEndBlock (map Name pre) @ [CallEndBlock (Name app)])
     \<and> (authenticated mux tx ctx c1 \<and> map_of (appsByMethod mux) (Method tx) = Some owner \<and>
        ExecuteTx owner tx c1 = (None, c2) \<and>
        hooksSucceed (map (\<lambda>f. ForeignExecuteTx f (Name owner) tx) others) c2 c3 \<longrightarrow>
          processTx mux ctx tx cs =
            ((None, c3),
             cs @ authCalls mux @ CallExecuteTx (Name owner)
               # map (\<lambda>f. CallForeignExecuteTx (Name f) (Name owner)) others))
     \<and> (authenticated mux tx ctx c1 \<and> map_of (appsByMethod mux) (Method tx) = Some owner \<and>
        ExecuteTx owner tx c1 = (Some err, c2) \<longrightarrow>
          processTx mux ctx tx cs =
            ((Some err, c2), cs @ authCalls mux @ [CallExecuteTx (Name owner)]))
     \<and> (authenticated mux tx ctx c1 \<and> map_of (appsByMethod mux) (Method tx) = Some owner \<and>
        ExecuteTx owner tx c1 = (None, c2) \<and> others = pre @ app # post \<and>
        hooksSucceed (map (\<lambda>f. ForeignExecuteTx f (Name owner) tx) pre) c2 c3 \<and>
        ForeignExecuteTx app (Name owner) tx c3 = (Some err, c4) \<longrightarrow>
          processTx mux ctx tx cs =
            ((Some err, c4),
             cs @ authCalls mux @ CallExecuteTx (Name owner)
               # map (\<lambda>f. CallForeignExecuteTx (Name f) (Name owner)) (pre @ [app])))
     \<and> (authenticated mux tx ctx c1 \<and> map_of (appsByMethod mux) (Method tx) = None \<longrightarrow>
          processTx mux ctx tx cs =
            ((Some (ErrUnknownMethod (Method tx)), c1), cs @ authCalls mux))
     \<and> (txAuthHandler (muxState mux) = Some auth \<and> auth tx ctx = (Some err, c1) \<longrightarrow>
          processTx mux ctx tx cs = ((Some err, c1), cs @ [CallAuthenticateTx]))"
proof -
  have empty: "appsByName mux = [] \<and> appsByLexOrder mux = [] \<longrightarrow> appsRegistered mux"
    by (simp add: empty_appsRegistered)
  have inv: "sorted names \<and> distinct names \<and> set names \<subseteq> fst ` set (appsByName mux)
          \<and> (\<exists>k \<le> length (appsByName mux). names = sort (map fst (take k (appsByName mux))))
          \<and> appsRegistered (snd (doRegister mux newApp))
          \<and> (fst (doRegister mux newApp) = None \<longrightarrow>
                appsByName (snd (doRegister mux newApp)) = appsByName mux @ [(Name newApp, newApp)]
              \<and> map Name (appsByLexOrder (snd (doRegister mux newApp)))
                  = sort (map fst (appsByName (snd (doRegister mux newApp)))))
          \<and> appsRegistered (snd (abciMux_InitChain mux st))
          \<and> appsRegistered (snd (abciMux_BeginBlock mux))
          \<and> appsRegistered (snd (abciMux_CheckTx mux req))
          \<and> appsRegistered (snd (abciMux_DeliverTx mux rawTx))
          \<and> appsRegistered (snd (abciMux_EndBlock mux))"
    if reg: "appsRegistered mux"
    unfolding names_def
    using reg appsRegistered_order [OF reg] appsRegistered_names [OF reg]
      doRegister_appsRegistered [OF reg, of newApp] doRegister_all_names [OF reg, of newApp]
      appsRegistered_cong [OF InitChain_keeps_apps, of mux st]
      appsRegistered_cong [OF BeginBlock_keeps_apps, of mux]
      appsRegistered_cong [OF CheckTx_keeps_apps, of mux req]
      appsRegistered_cong [OF DeliverTx_keeps_apps, of mux rawTx]
      appsRegistered_cong [OF EndBlock_keeps_apps, of mux]
    by simp
  show ?thesis
    unfolding apps_def names_def others_def running_def
    apply (intro conjI)
    subgoal using empty by blast
    subgoal using inv [unfolded names_def] by blast
    subgoal using InitChain_ok by blast
    subgoal using InitChain_err by blast
    subgoal using BeginBlock_ok by blast
    subgoal using BeginBlock_err by blast
    subgoal using EndBlock_ok by blast
    subgoal using EndBlock_timer_err by blast
    subgoal using EndBlock_err by blast
    subgoal using processTx_ok by blast
    subgoal using processTx_execute_err by blast
    subgoal using processTx_foreign_err by blast
    subgoal using processTx_unknown_method by blast
    subgoal using processTx_auth_err by blast
    done
qed

text \<open>
  The theorem at a multiplexer on which \<open>staking\<close>, \<open>registry\<close> and \<open>beacon\<close> were
  registered in this order, and at multiplexers with a fourth application,
  \<open>keymanager\<close>, that fails in one hook: the applications after it are not invoked.
\<close>

theorem dispatch_in_lex_order_witness:
  "appsRegistered threeAppMux
   \<and> map Name (appsByLexOrder threeAppMux) = [''beacon'', ''registry'', ''staking'']
   \<and> fst (doRegister threeAppMux (demoApp ''roothash'' [''staking.Transfer''])) = Some (ErrOther 2)
   \<and> appsRegistered (snd (doRegister threeAppMux (demoApp ''roothash'' [''staking.Transfer''])))
   \<and> map fst (appsByName (snd (doRegister threeAppMux (demoApp ''roothash'' [''staking.Transfer'']))))
       = [''staking'', ''registry'', ''beacon'', ''roothash'']
   \<and> map Name (appsByLexOrder (snd (doRegister threeAppMux (demoApp ''roothash'' [''staking.Transfer'']))))
       = [''beacon'', ''registry'', ''staking'']
   \<and> calls (snd (abciMux_InitChain threeAppMux (Some 0)))
       = [CallInitChain ''beacon'', CallInitChain ''registry'', CallInitChain ''staking'']
   \<and> calls (snd (abciMux_BeginBlock threeAppMux))
       = [CallBeginBlock ''beacon'', CallBeginBlock ''registry'', CallBeginBlock ''staking'']
   \<and> calls (snd (abciMux_EndBlock threeAppMux))
       = [CallFireTimers ''beacon'', CallFireTimers ''registry'', CallFireTimers ''staking'',
          CallEndBlock ''beacon'', CallEndBlock ''registry'', CallEndBlock ''staking'']
   \<and> processTx threeAppMux demoCtx \<lparr>Method = ''registry.RegisterNode'', Body = 0\<rparr> []
       = ((None, demoCtx),
          [CallExecuteTx ''registry'', CallForeignExecuteTx ''beacon'' ''registry'',
           CallForeignExecuteTx ''staking'' ''registry''])
   \<and> map Name (appsByLexOrder (faultyMux ''BeginBlock'')) = [''beacon'', ''keymanager'', ''registry'', ''staking'']
   \<and> fst (abciMux_InitChain (faultyMux ''InitChain'') (Some 0))
       = Inl (Panic ''mux: InitChain: fatal error in application: keymanager'')
   \<and> calls (snd (abciMux_InitChain (faultyMux ''InitChain'') (Some 0)))
       = [CallInitChain ''beacon'', CallInitChain ''keymanager'']
   \<and> fst (abciMux_BeginBlock (faultyMux ''BeginBlock''))
       = Inl (Panic ''mux: BeginBlock: fatal error in application: keymanager'')
   \<and> calls (snd (abciMux_BeginBlock (faultyMux ''BeginBlock'')))
       = [CallBeginBlock ''beacon'', CallBeginBlock ''keymanager'']
   \<and> fst (abciMux_EndBlock (faultyMux ''FireTimers''))
       = Inl (Panic ''mux: EndBlock: fatal error in application: keymanager'')
   \<and> calls (snd (abciMux_EndBlock (faultyMux ''FireTimers'')))
       = [CallFireTimers ''beacon'', CallFireTimers ''keymanager'']
   \<and> fst (abciMux_EndBlock (faultyMux ''EndBlock''))
       = Inl (Panic ''mux: EndBlock: fatal error in application: keymanager'')
   \<and> calls (snd (abciMux_EndBlock (faultyMux ''EndBlock'')))
       = [CallFireTimers ''beacon'', CallFireTimers ''keymanager'', CallFireTimers ''registry'',
          CallFireTimers ''staking'', CallEndBlock ''beacon'', CallEndBlock ''keymanager'']
   \<and> processTx (faultyMux ''ForeignExecuteTx'') demoCtx \<lparr>Method = ''registry.RegisterNode'', Body = 0\<rparr> []
       = ((Some ErrInvalidArgument, demoCtx),
          [CallExecuteTx ''registry'', CallForeignExecuteTx ''beacon'' ''registry'',
           CallForeignExecuteTx ''keymanager'' ''registry''])
   \<and> processTx twoAppMux demoCtx \<lparr>Method = ''registry.RegisterNode'', Body = 0\<rparr> []
       = ((Some ErrInvalidArgument, demoCtx), [CallExecuteTx ''registry''])
   \<and> processTx threeAppMux demoCtx \<lparr>Method = ''roothash.Commit'', Body = 0\<rparr> []
       = ((Some (ErrUnknownMethod ''roothash.Commit''), demoCtx), [])
   \<and> processTx authMux demoCtx \<lparr>Method = ''registry.RegisterNode'', Body = 0\<rparr> [] = ((Some ErrForbidden, demoCtx), [CallAuthenticateTx])"
proof -
  have empty: "appsRegistered runningMux"
    using dispatch_in_lex_order [where mux = runningMux, THEN conjunct1]
    by (simp add: runningMux_def demoMux_def)
  have reg1: "appsRegistered (snd (doRegister runningMux (demoApp ''staking'' [''staking.Transfer''])))"
    using dispatch_in_lex_order [where mux = runningMux and newApp = "demoApp ''staking'' [''staking.Transfer'']", THEN conjunct2, THEN conjunct1] empty by blast
  have reg2: "appsRegistered (snd (doRegister (snd (doRegister runningMux (demoApp ''staking'' [''staking.Transfer'']))) (demoApp ''registry'' [''registry.RegisterNode''])))"
    using dispatch_in_lex_order [where mux = "snd (doRegister runningMux (demoApp ''staking'' [''staking.Transfer'']))" and newApp = "demoApp ''registry'' [''registry.RegisterNode'']", THEN conjunct2, THEN conjunct1] reg1 by blast
  have reg: "appsRegistered threeAppMux"
    unfolding threeAppMux_def
    using dispatch_in_lex_order [where mux = "snd (doRegister (snd (doRegister runningMux (demoApp ''staking'' [''staking.Transfer'']))) (demoApp ''registry'' [''registry.RegisterNode'']))" and newApp = "demoApp ''beacon'' []", THEN conjunct2, THEN conjunct1] reg2 by blast
  have names: "map Name (appsByLexOrder threeAppMux) = [''beacon'', ''registry'', ''staking'']"
    by (simp add: demo_defs)
  have failed: "appsRegistered (snd (doRegister threeAppMux (demoApp ''roothash'' [''staking.Transfer''])))"
    using dispatch_in_lex_order [where mux = threeAppMux and newApp = "demoApp ''roothash'' [''staking.Transfer'']", THEN conjunct2, THEN conjunct1] reg
    by blast
  have failed_ev: "fst (doRegister threeAppMux (demoApp ''roothash'' [''staking.Transfer''])) = Some (ErrOther 2)
     \<and> map fst (appsByName (snd (doRegister threeAppMux (demoApp ''roothash'' [''staking.Transfer'']))))
         = [''staking'', ''registry'', ''beacon'', ''roothash'']
     \<and> map Name (appsByLexOrder (snd (doRegister threeAppMux (demoApp ''roothash'' [''staking.Transfer'']))))
         = [''beacon'', ''registry'', ''staking'']"
    by (simp add: demo_defs)
  have fnames: "map Name (appsByLexOrder (faultyMux ''BeginBlock''))
      = [''beacon'', ''keymanager'', ''registry'', ''staking'']"
    using dispatch_in_lex_order [where mux = threeAppMux and newApp = "faultyApp ''keymanager'' [] ''BeginBlock''", THEN conjunct2, THEN conjunct1] reg
    by (simp add: demo_defs faulty_defs NewContext_def storeCursor_def)
  have init: "calls (snd (abciMux_InitChain threeAppMux (Some 0)))
       = [CallInitChain ''beacon'', CallInitChain ''registry'', CallInitChain ''staking'']"
    using dispatch_in_lex_order [where mux = threeAppMux and n = 0 and ?c1.0 = "NewContext ContextInitChain (muxState threeAppMux)", THEN conjunct2, THEN conjunct2, THEN conjunct1]
    by (simp add: demo_defs faulty_defs NewContext_def storeCursor_def)
  have beginb: "calls (snd (abciMux_BeginBlock threeAppMux))
       = [CallBeginBlock ''beacon'', CallBeginBlock ''registry'', CallBeginBlock ''staking'']"
    using dispatch_in_lex_order [where mux = threeAppMux and ?c1.0 = "NewContext ContextBeginBlock (muxState threeAppMux)", THEN conjunct2, THEN conjunct2, THEN conjunct2, THEN conjunct2, THEN conjunct1]
    by (simp add: demo_defs faulty_defs NewContext_def storeCursor_def)
  have endb: "calls (snd (abciMux_EndBlock threeAppMux))
       = [CallFireTimers ''beacon'', CallFireTimers ''registry'', CallFireTimers ''staking'',
          CallEndBlock ''beacon'', CallEndBlock ''registry'', CallEndBlock ''staking'']"
    using dispatch_in_lex_order [where mux = threeAppMux and ?c1.0 = "NewContext ContextEndBlock (muxState threeAppMux)" and ?c2.0 = "NewContext ContextEndBlock (muxState threeAppMux)", THEN conjunct2, THEN conjunct2, THEN conjunct2, THEN conjunct2, THEN conjunct2, THEN conjunct2, THEN conjunct1]
    by (simp add: demo_defs faulty_defs NewContext_def storeCursor_def)
  have tx: "processTx threeAppMux demoCtx \<lparr>Method = ''registry.RegisterNode'', Body = 0\<rparr> []
       = ((None, demoCtx),
          [CallExecuteTx ''registry'', CallForeignExecuteTx ''beacon'' ''registry'',
           CallForeignExecuteTx ''staking'' ''registry''])"
    using dispatch_in_lex_order [where mux = threeAppMux and tx = "\<lparr>Method = ''registry.RegisterNode'', Body = 0\<rparr>" and ctx = demoCtx and ?c1.0 = demoCtx and ?c2.0 = demoCtx and ?c3.0 = demoCtx and owner = "demoApp ''registry'' [''registry.RegisterNode'']" and cs = "[]", THEN conjunct2, THEN conjunct2, THEN conjunct2, THEN conjunct2, THEN conjunct2, THEN conjunct2, THEN conjunct2, THEN conjunct2, THEN conjunct2, THEN conjunct1]
    by (simp add: demo_defs faulty_defs NewContext_def storeCursor_def)
  have finit: "fst (abciMux_InitChain (faultyMux ''InitChain'') (Some 0))
       = Inl (Panic ''mux: InitChain: fatal error in application: keymanager'')
     \<and> calls (snd (abciMux_InitChain (faultyMux ''InitChain'') (Some 0)))
       = [CallInitChain ''beacon'', CallInitChain ''keymanager'']"
    using dispatch_in_lex_order [where mux = "faultyMux ''InitChain''" and n = 0 and ?c1.0 = "NewContext ContextInitChain (muxState (faultyMux ''InitChain''))" and pre = "[demoApp ''beacon'' []]" and app = "faultyApp ''keymanager'' [] ''InitChain''" and post = "[demoApp ''registry'' [''registry.RegisterNode''], demoApp ''staking'' [''staking.Transfer'']]" and err = ErrInvalidArgument, THEN conjunct2, THEN conjunct2, THEN conjunct2, THEN conjunct1]
    by (simp add: demo_defs faulty_defs NewContext_def storeCursor_def)
  have fbegin: "fst (abciMux_BeginBlock (faultyMux ''BeginBlock''))
       = Inl (Panic ''mux: BeginBlock: fatal error in application: keymanager'')
     \<and> calls (snd (abciMux_BeginBlock (faultyMux ''BeginBlock'')))
       = [CallBeginBlock ''beacon'', CallBeginBlock ''keymanager'']"
    using dispatch_in_lex_order [where mux = "faultyMux ''BeginBlock''" and ?c1.0 = "NewContext ContextBeginBlock (muxState (faultyMux ''BeginBlock''))" and pre = "[demoApp ''beacon'' []]" and app = "faultyApp ''keymanager'' [] ''BeginBlock''" and post = "[demoApp ''registry'' [''registry.RegisterNode''], demoApp ''staking'' [''staking.Transfer'']]" and err = ErrInvalidArgument, THEN conjunct2, THEN conjunct2, THEN conjunct2, THEN conjunct2, THEN conjunct2, THEN conjunct1]
    by (simp add: demo_defs faulty_defs NewContext_def storeCursor_def)
  have ftimer: "fst (abciMux_EndBlock (faultyMux ''FireTimers''))
       = Inl (Panic ''mux: EndBlock: fatal error in application: keymanager'')
     \<and> calls (snd (abciMux_EndBlock (faultyMux ''FireTimers'')))
       = [CallFireTimers ''beacon'', CallFireTimers ''keymanager'']"
    using dispatch_in_lex_order [where mux = "faultyMux ''FireTimers''" and ?c1.0 = "NewContext ContextEndBlock (muxState (faultyMux ''FireTimers''))" and pre = "[demoApp ''beacon'' []]" and app = "faultyApp ''keymanager'' [] ''FireTimers''" and post = "[demoApp ''registry'' [''registry.RegisterNode''], demoApp ''staking'' [''staking.Transfer'']]" and err = ErrInvalidArgument, THEN conjunct2, THEN conjunct2, THEN conjunct2, THEN conjunct2, THEN conjunct2, THEN conjunct2, THEN conjunct2, THEN conjunct1]
    by (simp add: demo_defs faulty_defs NewContext_def storeCursor_def)
  have fend: "fst (abciMux_EndBlock (faultyMux ''EndBlock''))
       = Inl (Panic ''mux: EndBlock: fatal error in application: keymanager'')
     \<and> calls (snd (abciMux_EndBlock (faultyMux ''EndBlock'')))
       = [CallFireTimers ''beacon'', CallFireTimers ''keymanager'', CallFireTimers ''registry'',
          CallFireTimers ''staking'', CallEndBlock ''beacon'', CallEndBlock ''keymanager'']"
    using dispatch_in_lex_order [where mux = "faultyMux ''EndBlock''" and ?c1.0 = "NewContext ContextEndBlock (muxState (faultyMux ''EndBlock''))" and ?c2.0 = "NewContext ContextEndBlock (muxState (faultyMux ''EndBlock''))" and pre = "[demoApp ''beacon'' []]" and app = "faultyApp ''keymanager'' [] ''EndBlock''" and post = "[demoApp ''registry'' [''registry.RegisterNode''], demoApp ''staking'' [''staking.Transfer'']]" and err = ErrInvalidArgument, THEN conjunct2, THEN conjunct2, THEN conjunct2, THEN conjunct2, THEN conjunct2, THEN conjunct2, THEN conjunct2, THEN conjunct2, THEN conjunct1]
    by (simp add: demo_defs faulty_defs NewContext_def storeCursor_def)
  have fforeign: "processTx (faultyMux ''ForeignExecuteTx'') demoCtx \<lparr>Method = ''registry.RegisterNode'', Body = 0\<rparr> []
       = ((Some ErrInvalidArgument, demoCtx),
          [CallExecuteTx ''registry'', CallForeignExecuteTx ''beacon'' ''registry'',
           CallForeignExecuteTx ''keymanager'' ''registry''])"
    using dispatch_in_lex_order [where mux = "faultyMux ''ForeignExecuteTx''" and tx = "\<lparr>Method = ''registry.RegisterNode'', Body = 0\<rparr>" and ctx = demoCtx and ?c1.0 = demoCtx and ?c2.0 = demoCtx and ?c3.0 = demoCtx and ?c4.0 = demoCtx and owner = "demoApp ''registry'' [''registry.RegisterNode'']" and pre = "[demoApp ''beacon'' []]" and app = "faultyApp ''keymanager'' [] ''ForeignExecuteTx''" and post = "[demoApp ''staking'' [''staking.Transfer'']]" and err = ErrInvalidArgument and cs = "[]", THEN conjunct2, THEN conjunct2, THEN conjunct2, THEN conjunct2, THEN conjunct2, THEN conjunct2, THEN conjunct2, THEN conjunct2, THEN conjunct2, THEN conjunct2, THEN conjunct2, THEN conjunct1]
    by (simp add: demo_defs faulty_defs NewContext_def storeCursor_def)
  have fexec: "processTx twoAppMux demoCtx \<lparr>Method = ''registry.RegisterNode'', Body = 0\<rparr> []
       = ((Some ErrInvalidArgument, demoCtx), [CallExecuteTx ''registry''])"
    using dispatch_in_lex_order [where mux = twoAppMux and tx = "\<lparr>Method = ''registry.RegisterNode'', Body = 0\<rparr>" and ctx = demoCtx and ?c1.0 = demoCtx and ?c2.0 = demoCtx and owner = "failingApp ''registry'' [''registry.RegisterNode'']" and err = ErrInvalidArgument and cs = "[]", THEN conjunct2, THEN conjunct2, THEN conjunct2, THEN conjunct2, THEN conjunct2, THEN conjunct2, THEN conjunct2, THEN conjunct2, THEN conjunct2, THEN conjunct2, THEN conjunct1]
    by (simp add: demo_defs faulty_defs NewContext_def storeCursor_def)
  have unknown: "processTx threeAppMux demoCtx \<lparr>Method = ''roothash.Commit'', Body = 0\<rparr> []
       = ((Some (ErrUnknownMethod ''roothash.Commit''), demoCtx), [])"
    using dispatch_in_lex_order [where mux = threeAppMux and tx = "\<lparr>Method = ''roothash.Commit'', Body = 0\<rparr>" and ctx = demoCtx and ?c1.0 = demoCtx and cs = "[]", THEN conjunct2, THEN conjunct2, THEN conjunct2, THEN conjunct2, THEN conjunct2, THEN conjunct2, THEN conjunct2, THEN conjunct2, THEN conjunct2, THEN conjunct2, THEN conjunct2, THEN conjunct2, THEN conjunct1]
    by (simp add: demo_defs faulty_defs NewContext_def storeCursor_def)
  have auth: "processTx authMux demoCtx \<lparr>Method = ''registry.RegisterNode'', Body = 0\<rparr> [] = ((Some ErrForbidden, demoCtx), [CallAuthenticateTx])"
    using dispatch_in_lex_order [where mux = authMux and tx = "\<lparr>Method = ''registry.RegisterNode'', Body = 0\<rparr>" and ctx = demoCtx and ?c1.0 = demoCtx and auth = "\<lambda>tx ctx. (Some ErrForbidden, ctx)" and err = ErrForbidden and cs = "[]", THEN conjunct2, THEN conjunct2, THEN conjunct2, THEN conjunct2, THEN conjunct2, THEN conjunct2, THEN conjunct2, THEN conjunct2, THEN conjunct2, THEN conjunct2, THEN conjunct2, THEN conjunct2, THEN conjunct2]
    by (simp add: demo_defs faulty_defs NewContext_def storeCursor_def)
  show ?thesis
    using reg names failed failed_ev fnames init beginb endb tx finit fbegin ftimer fend fforeign fexec unknown auth
    by simp
qed

subsection \<open>Node registration\<close>

text \<open>What the phases of registerNode leave unchanged in the context.\<close>

lemma UseGas_keeps:
  "UseGas m op costs ctx = (e, ctx') \<Longrightarrow>
     ctxState ctx' = ctxState ctx \<and> ctxGasUsed ctx \<le> ctxGasUsed ctx' \<and>
     ctxMode ctx' = ctxMode ctx \<and> ctxBlockHeight ctx' = ctxBlockHeight ctx \<and>
     ctxTxSigner ctx' = ctxTxSigner ctx \<and> ctxGasLimit ctx' = ctxGasLimit ctx"
  by (auto simp add: UseGas_def Let_def split: if_splits)

lemma registerNode_args_keeps:
  "registerNode_args deps ctx sigNode = (r, ctx') \<Longrightarrow>
     ctxState ctx' = ctxState ctx \<and> ctxGasUsed ctx \<le> ctxGasUsed ctx' \<and>
     ctxBlockHeight ctx' = ctxBlockHeight ctx"
  by (auto simp add: registerNode_args_def split: sum.splits prod.splits option.splits if_splits
      dest: UseGas_keeps)

lemma resumeRuntimes_gas:
  "resumeRuntimes deps rts ctx = (e, ctx') \<Longrightarrow> ctxGasUsed ctx' = ctxGasUsed ctx"
  by (induction rts arbitrary: ctx)
    (fastforce simp add: EmitEvent_def split: prod.splits option.splits if_splits)+

lemma registerNode_store_gas:
  "registerNode_store deps params ctx sigNode newNode ex cache n = (e, ctx') \<Longrightarrow>
     ctxGasUsed ctx' = ctxGasUsed ctx"
  by (auto simp add: registerNode_store_def
      split: existing.splits sum.splits prod.splits option.splits)

lemma registerNode_body_keeps:
  assumes "registerNode_body deps params ctx sigNode newNode paid ex cache n = ((e, ok), ctx')"
  shows "ctxGasUsed ctx' = ctxGasUsed ctx \<and> (ok \<longleftrightarrow> e = None)"
proof -
  obtain e1 ctx1 where c:
    "registerNode_store deps params ctx sigNode newNode ex cache n = (e1, ctx1)"
    by (cases "registerNode_store deps params ctx sigNode newNode ex cache n")
  obtain e2 ctx2 where r: "resumeRuntimes deps paid ctx1 = (e2, ctx2)"
    by (cases "resumeRuntimes deps paid ctx1")
  from registerNode_store_gas [OF c] resumeRuntimes_gas [OF r]
  have "ctxGasUsed ctx1 = ctxGasUsed ctx" "ctxGasUsed ctx2 = ctxGasUsed ctx" by simp_all
  then show ?thesis
    using assms c r
    by (auto simp add: registerNode_body_def Let_def EmitEvent_def split: option.splits)
qed

lemma registerNode_error_keeps:
  assumes "registerNode deps appState ctx sigNode = (Some err, ctx')"
  shows "ctxState ctx' = ctxState ctx \<and> ctxGasUsed ctx \<le> ctxGasUsed ctx'"
proof (cases "IsCheckOnly ctx")
  case True
  with assms show ?thesis by (simp add: registerNode_def)
next
  case False
  obtain r ctx1 where args: "registerNode_args deps ctx sigNode = (r, ctx1)"
    by (cases "registerNode_args deps ctx sigNode")
  note k1 = registerNode_args_keeps [OF args]
  show ?thesis
  proof (cases r)
    case (Inl e)
    with assms False args k1 show ?thesis by (simp add: registerNode_def)
  next
    case (Inr v)
    obtain params newNode paid where v: "v = (params, newNode, paid)" by (cases v)
    show ?thesis
      using assms False args Inr v k1
      by (auto simp add: registerNode_def Let_def Rollback_def Close_def NewStateCheckpoint_def
          split: sum.splits prod.splits option.splits if_splits
          dest!: UseGas_keeps registerNode_body_keeps)
  qed
qed

lemmas reg_demo_defs =
  demoDeps_def brokenResumeDeps_def memDeps_def demoBlobs_def demoParams_def demoNode_def
  whitelistRT_def anyNodeRT_def regState_def regStateLive_def regAppState_def regCtx_def
  NewContext_def

lemmas registerNode_defs =
  registerNode_def registerNode_args_def recheckStake_def lookupNode_def additionalEpochs_def
  feeCount_def registerNode_body_def registerNode_store_def ensureNodeStake_def UseGas_def
  IsCheckOnly_def IsInitChain_def EmitEvent_def NewStateCheckpoint_def Rollback_def Close_def
  GetEpoch_def mapIndex_def List.map_filter_simps Let_def

text \<open>The gas used when registerNode fails: what it was, plus the charges that were made.\<close>

lemma registerNode_args_gas:
  "registerNode_args deps ctx sigNode = (r, ctx1) \<Longrightarrow>
     ctxGasUsed ctx1 = ctxGasUsed ctx + registrationCharge deps ctx sigNode \<and>
     ctxGasLimit ctx1 = ctxGasLimit ctx"
  by (auto simp add: registerNode_args_def registrationCharge_def UseGas_def Let_def
      split: sum.splits prod.splits option.splits if_splits)

lemma registerNode_gas:
  assumes "registerNode deps appState ctx sigNode = (Some err, ctx')"
  shows "ctxGasUsed ctx' = ctxGasUsed ctx + registrationCharge deps ctx sigNode
           + maintenanceCharge deps appState ctx sigNode"
proof -
  have nc: "\<not> IsCheckOnly ctx"
    using assms by (auto simp add: registerNode_def)
  obtain r ctx1 where args: "registerNode_args deps ctx sigNode = (r, ctx1)"
    by (cases "registerNode_args deps ctx sigNode")
  note k1 = registerNode_args_keeps [OF args]
  note g1 = registerNode_args_gas [OF args]
  show ?thesis
  proof (cases r)
    case (Inl e)
    with assms nc args g1 show ?thesis
      by (simp add: registerNode_def maintenanceCharge_def)
  next
    case (Inr v)
    obtain params newNode paid where v: "v = (params, newNode, paid)" by (cases v)
    show ?thesis
      using assms nc args Inr v k1 g1
      by (auto simp add: registerNode_def maintenanceCharge_def GetEpoch_def UseGas_def Let_def
          Rollback_def Close_def NewStateCheckpoint_def
          split: sum.splits prod.splits option.splits if_splits
          dest!: registerNode_body_keeps)
  qed
qed

text \<open>
  C2. Whenever registerNode returns an error, the state tree of the context it leaves is
  the tree it was given: nothing is written before the checkpoint, and every error
  after the checkpoint leaves \<open>ok\<close> false, so the deferred function rolls back. The
  gas is not rolled back: the gas used is what it was before the call plus the charge
  of the registration and the maintenance charge, each if it was made.
\<close>

theorem registerNode_failure_rolls_back:
  assumes "registerNode deps appState ctx sigNode = (Some err, ctx')"
  shows "ctxState ctx' = ctxState ctx
         \<and> ctxGasUsed ctx' = ctxGasUsed ctx + registrationCharge deps ctx sigNode
             + maintenanceCharge deps appState ctx sigNode"
  using assms registerNode_error_keeps registerNode_gas by blast

text \<open>
  The theorem at a registration that fails while resuming a runtime, after the node and
  its status were written and the resume itself changed the tree: the tree is the one
  given, and the 527 units of gas charged (500 for the registration, 3 for each of the
  9 epochs of one runtime) stay.
\<close>

theorem registerNode_failure_rolls_back_witness:
  "registerNode brokenResumeDeps (regAppState regState) (regCtx regState 1)
     \<lparr>Blob = 0, SignaturePublicKey = 1\<rparr>
   = (Some (ErrWrapped ''failed to resume suspended runtime'' (ErrOther 5)),
      (regCtx regState 1)\<lparr>ctxGasUsed := 527\<rparr>)
   \<and> ctxState (snd (registerNode brokenResumeDeps (regAppState regState) (regCtx regState 1)
         \<lparr>Blob = 0, SignaturePublicKey = 1\<rparr>)) = regState
   \<and> registrationCharge brokenResumeDeps (regCtx regState 1) \<lparr>Blob = 0, SignaturePublicKey = 1\<rparr> = 500
   \<and> maintenanceCharge brokenResumeDeps (regAppState regState) (regCtx regState 1)
        \<lparr>Blob = 0, SignaturePublicKey = 1\<rparr> = 27"
proof -
  have r: "registerNode brokenResumeDeps (regAppState regState) (regCtx regState 1)
     \<lparr>Blob = 0, SignaturePublicKey = 1\<rparr>
   = (Some (ErrWrapped ''failed to resume suspended runtime'' (ErrOther 5)),
      (regCtx regState 1)\<lparr>ctxGasUsed := 527\<rparr>)"
    by (simp add: reg_demo_defs registerNode_defs)
  have c: "registrationCharge brokenResumeDeps (regCtx regState 1) \<lparr>Blob = 0, SignaturePublicKey = 1\<rparr> = 500"
    by (simp add: reg_demo_defs registerNode_defs registrationCharge_def)
  have m: "maintenanceCharge brokenResumeDeps (regAppState regState) (regCtx regState 1)
        \<lparr>Blob = 0, SignaturePublicKey = 1\<rparr> = 27"
    by (simp add: reg_demo_defs registerNode_defs registrationCharge_def maintenanceCharge_def)
  from registerNode_failure_rolls_back [OF r] r c m show ?thesis
    by (simp add: regCtx_def NewContext_def regAppState_def)
qed

text \<open>The whitelist loop accepts exactly the lists whose runtimes all load and admit the entity.\<close>

lemma checkWhitelist_None:
  "checkWhitelist deps st newNode nrts = None \<longleftrightarrow>
     (\<forall>nrt \<in> set nrts. \<exists>rt. stateRuntime deps st (nrID nrt) = Inr rt \<and>
        (case EntityWhitelist (AdmissionPolicy rt) of
           None \<Rightarrow> True
         | Some entities \<Rightarrow> mapIndex entities (EntityID newNode)))"
  by (induction nrts) (auto split: sum.splits option.splits)

lemma checkWhitelist_Forbidden:
  "\<forall>nrt \<in> set nrts. \<exists>rt. stateRuntime deps st (nrID nrt) = Inr rt \<Longrightarrow>
   checkWhitelist deps st newNode nrts \<noteq> None \<Longrightarrow>
   checkWhitelist deps st newNode nrts = Some ErrForbidden"
  by (induction nrts) (auto split: sum.splits option.splits if_splits)

text \<open>
  C3, as the claim states it, fails: in a check-only (CheckTx) context registerNode
  returns nil at once, also for a node of entity 2 that lists runtime 11, whose
  whitelist holds entity 1 only.
\<close>

theorem registerNode_admission_counterexample:
  "stateRuntime demoDeps regState 11 = Inr whitelistRT
   \<and> EntityWhitelist (AdmissionPolicy whitelistRT) = Some [1 \<mapsto> True]
   \<and> \<not> mapIndex [1 \<mapsto> True] 2
   \<and> cborUnmarshalNode demoDeps 1 = Inr (demoNode 101 2 12)
   \<and> nrID (hd (Runtimes (demoNode 101 2 12))) = 11
   \<and> registerNode demoDeps (regAppState regState) ((regCtx regState 2)\<lparr>ctxMode := ContextCheckTx\<rparr>)
        \<lparr>Blob = 1, SignaturePublicKey = 2\<rparr>
      = (None, (regCtx regState 2)\<lparr>ctxMode := ContextCheckTx\<rparr>)"
  by (simp add: reg_demo_defs registerNode_defs)

text \<open>
  C3, amended. A check-only invocation returns nil without looking at any policy. In
  any other invocation that passes the decoding, VerifyRegisterNodeArgs, the gas charge
  and the signer check: if a runtime the node lists has a whitelist that does not
  contain the node's entity, registerNode returns an error and leaves the state tree as
  it was, and the error is ErrForbidden when every listed runtime loads; and if
  registerNode returns nil, every listed runtime loads and either has no whitelist or
  has the node's entity in it.
\<close>

theorem registerNode_admission:
  "(IsCheckOnly ctx \<longrightarrow> registerNode deps appState ctx sigNode = (None, ctx))
   \<and> (\<not> IsCheckOnly ctx \<and>
        registerNode_args deps ctx sigNode = (Inr (params, newNode, paidRuntimes), ctx1) \<longrightarrow>
        ((\<exists>nrt \<in> set (Runtimes newNode). \<exists>rt entities.
             stateRuntime deps (ctxState ctx) (nrID nrt) = Inr rt \<and>
             EntityWhitelist (AdmissionPolicy rt) = Some entities \<and>
             \<not> mapIndex entities (EntityID newNode)) \<longrightarrow>
           (\<exists>err. fst (registerNode deps appState ctx sigNode) = Some err) \<and>
           ctxState (snd (registerNode deps appState ctx sigNode)) = ctxState ctx \<and>
           ((\<forall>nrt \<in> set (Runtimes newNode).
                \<exists>rt. stateRuntime deps (ctxState ctx) (nrID nrt) = Inr rt) \<longrightarrow>
              registerNode deps appState ctx sigNode = (Some ErrForbidden, ctx1)))
        \<and> (fst (registerNode deps appState ctx sigNode) = None \<longrightarrow>
             (\<forall>nrt \<in> set (Runtimes newNode).
                \<exists>rt. stateRuntime deps (ctxState ctx) (nrID nrt) = Inr rt \<and>
                  (case EntityWhitelist (AdmissionPolicy rt) of
                     None \<Rightarrow> True
                   | Some entities \<Rightarrow> mapIndex entities (EntityID newNode)))))"
proof (intro conjI impI)
  assume "IsCheckOnly ctx"
  then show "registerNode deps appState ctx sigNode = (None, ctx)"
    by (simp add: registerNode_def)
next
  assume a: "\<not> IsCheckOnly ctx \<and>
        registerNode_args deps ctx sigNode = (Inr (params, newNode, paidRuntimes), ctx1)"
  then have st: "ctxState ctx1 = ctxState ctx"
    using registerNode_args_keeps by blast
  assume bad: "\<exists>nrt \<in> set (Runtimes newNode). \<exists>rt entities.
             stateRuntime deps (ctxState ctx) (nrID nrt) = Inr rt \<and>
             EntityWhitelist (AdmissionPolicy rt) = Some entities \<and>
             \<not> mapIndex entities (EntityID newNode)"
  have wl: "checkWhitelist deps (ctxState ctx) newNode (Runtimes newNode) \<noteq> None"
  proof
    assume "checkWhitelist deps (ctxState ctx) newNode (Runtimes newNode) = None"
    then have "\<forall>nrt \<in> set (Runtimes newNode). \<exists>rt. stateRuntime deps (ctxState ctx) (nrID nrt) = Inr rt \<and>
        (case EntityWhitelist (AdmissionPolicy rt) of
           None \<Rightarrow> True
         | Some entities \<Rightarrow> mapIndex entities (EntityID newNode))"
      by (simp add: checkWhitelist_None)
    with bad show False by fastforce
  qed
  then obtain err where err: "checkWhitelist deps (ctxState ctx) newNode (Runtimes newNode) = Some err"
    by blast
  then have res: "registerNode deps appState ctx sigNode = (Some err, ctx1)"
    using a st by (simp add: registerNode_def)
  then show "\<exists>err. fst (registerNode deps appState ctx sigNode) = Some err" by simp
  from res st show "ctxState (snd (registerNode deps appState ctx sigNode)) = ctxState ctx" by simp
  assume "\<forall>nrt \<in> set (Runtimes newNode). \<exists>rt. stateRuntime deps (ctxState ctx) (nrID nrt) = Inr rt"
  then have "err = ErrForbidden"
    using checkWhitelist_Forbidden [OF _ wl] err by simp
  with res show "registerNode deps appState ctx sigNode = (Some ErrForbidden, ctx1)" by simp
next
  assume a: "\<not> IsCheckOnly ctx \<and>
        registerNode_args deps ctx sigNode = (Inr (params, newNode, paidRuntimes), ctx1)"
  then have st: "ctxState ctx1 = ctxState ctx"
    using registerNode_args_keeps by blast
  assume "fst (registerNode deps appState ctx sigNode) = None"
  then have "checkWhitelist deps (ctxState ctx) newNode (Runtimes newNode) = None"
    using a st by (auto simp add: registerNode_def split: option.splits)
  then show "\<forall>nrt \<in> set (Runtimes newNode).
                \<exists>rt. stateRuntime deps (ctxState ctx) (nrID nrt) = Inr rt \<and>
                  (case EntityWhitelist (AdmissionPolicy rt) of
                     None \<Rightarrow> True
                   | Some entities \<Rightarrow> mapIndex entities (EntityID newNode))"
    by (simp add: checkWhitelist_None)
qed

text \<open>
  The theorem at the node of entity 2 for the whitelisted runtime (rejected) and, for
  comparison, the node of entity 1 (registered).
\<close>

theorem registerNode_admission_witness:
  "registerNode demoDeps (regAppState regState) (regCtx regState 2) \<lparr>Blob = 1, SignaturePublicKey = 2\<rparr>
     = (Some ErrForbidden, (regCtx regState 2)\<lparr>ctxGasUsed := 500\<rparr>)
   \<and> fst (registerNode demoDeps (regAppState regState) (regCtx regState 1) \<lparr>Blob = 0, SignaturePublicKey = 1\<rparr>)
     = None"
proof -
  have a: "\<not> IsCheckOnly (regCtx regState 2) \<and>
     registerNode_args demoDeps (regCtx regState 2) \<lparr>Blob = 1, SignaturePublicKey = 2\<rparr>
       = (Inr (demoParams, demoNode 101 2 12, [whitelistRT]), (regCtx regState 2)\<lparr>ctxGasUsed := 500\<rparr>)"
    by (simp add: reg_demo_defs registerNode_defs)
  have b: "\<exists>nrt \<in> set (Runtimes (demoNode 101 2 12)). \<exists>rt entities.
             stateRuntime demoDeps (ctxState (regCtx regState 2)) (nrID nrt) = Inr rt \<and>
             EntityWhitelist (AdmissionPolicy rt) = Some entities \<and>
             \<not> mapIndex entities (EntityID (demoNode 101 2 12))"
    by (simp add: reg_demo_defs registerNode_defs)
  have c: "\<forall>nrt \<in> set (Runtimes (demoNode 101 2 12)).
             \<exists>rt. stateRuntime demoDeps (ctxState (regCtx regState 2)) (nrID nrt) = Inr rt"
    by (simp add: reg_demo_defs registerNode_defs)
  have d: "fst (registerNode demoDeps (regAppState regState) (regCtx regState 1) \<lparr>Blob = 0, SignaturePublicKey = 1\<rparr>)
     = None"
    by (simp add: reg_demo_defs registerNode_defs)
  from registerNode_admission [of "regCtx regState 2" demoDeps "regAppState regState"
      "\<lparr>Blob = 1, SignaturePublicKey = 2\<rparr>" demoParams "demoNode 101 2 12" "[whitelistRT]"
      "(regCtx regState 2)\<lparr>ctxGasUsed := 500\<rparr>"] a b c d
  show ?thesis by blast
qed

text \<open>The errors of the steps after the expiration check.\<close>

lemma registerNode_store_not_expired:
  assumes "registerNode_store deps params ctx sigNode newNode ex cache n = (Some ErrNodeExpired, ctx')"
  shows "(\<exists>a b c. EnsureNodeRegistrationStake deps a b c = Some ErrNodeExpired)
         \<or> (\<exists>a b. VerifyNodeUpdate deps a b = Some ErrNodeExpired)"
  using assms
  by (auto simp add: registerNode_store_def ensureNodeStake_def
      split: existing.splits sum.splits prod.splits option.splits if_splits)

lemma resumeRuntimes_not_expired:
  "resumeRuntimes deps rts ctx \<noteq> (Some ErrNodeExpired, ctx')"
  by (induction rts arbitrary: ctx) (auto split: prod.splits option.splits)

text \<open>
  C7. registerNode asks for the epoch at the context's block height plus one. When the
  invocation is not check-only and the steps before the expiration check succeed
  (decoding and verification, whitelist, stake), it returns ErrNodeExpired if and only
  if the node's expiration is less than or equal to that epoch. The verification
  functions called after the check (not under src/) are taken not to return
  ErrNodeExpired themselves.
\<close>

theorem registerNode_expired:
  assumes "\<not> IsCheckOnly ctx"
    and "registerNode_args deps ctx sigNode = (Inr (params, newNode, paidRuntimes), ctx1)"
    and "checkWhitelist deps (ctxState ctx) newNode (Runtimes newNode) = None"
    and "recheckStake deps params (ctxState ctx) newNode = Inr (stakeCache, numEntityNodes)"
    and "GetEpoch appState (ctxBlockHeight ctx + 1) = Inr epoch"
    and "\<And>a b c. EnsureNodeRegistrationStake deps a b c \<noteq> Some ErrNodeExpired"
    and "\<And>a b. VerifyNodeUpdate deps a b \<noteq> Some ErrNodeExpired"
  shows "fst (registerNode deps appState ctx sigNode) = Some ErrNodeExpired
           \<longleftrightarrow> Expiration newNode \<le> epoch"
proof -
  from assms(2) have k: "ctxState ctx1 = ctxState ctx" "ctxBlockHeight ctx1 = ctxBlockHeight ctx"
    using registerNode_args_keeps by blast+
  show ?thesis
  proof (cases "Expiration newNode \<le> epoch")
    case True
    then show ?thesis
      using assms(1-5) k by (simp add: registerNode_def)
  next
    case False
    have "fst (registerNode deps appState ctx sigNode) \<noteq> Some ErrNodeExpired"
      using assms(1-5) k False assms(6,7)
      by (auto simp add: registerNode_def lookupNode_def UseGas_def Let_def registerNode_body_def
          simp add: resumeRuntimes_not_expired
          split: sum.splits prod.splits option.splits if_splits
          dest!: registerNode_store_not_expired)
    with False show ?thesis by simp
  qed
qed

text \<open>The theorem at a node whose expiration, 3, equals the epoch of the next block.\<close>

theorem registerNode_expired_witness:
  "fst (registerNode demoDeps (regAppState regState) (regCtx regState 1) \<lparr>Blob = 2, SignaturePublicKey = 1\<rparr>)
     = Some ErrNodeExpired
   \<and> Expiration (demoNode 102 1 3) = 3 \<and> GetEpoch (regAppState regState) (4 + 1) = Inr 3"
proof -
  have a: "\<not> IsCheckOnly (regCtx regState 1)"
    "registerNode_args demoDeps (regCtx regState 1) \<lparr>Blob = 2, SignaturePublicKey = 1\<rparr>
       = (Inr (demoParams, demoNode 102 1 3, [whitelistRT]), (regCtx regState 1)\<lparr>ctxGasUsed := 500\<rparr>)"
    "checkWhitelist demoDeps (ctxState (regCtx regState 1)) (demoNode 102 1 3)
       (Runtimes (demoNode 102 1 3)) = None"
    "recheckStake demoDeps demoParams (ctxState (regCtx regState 1)) (demoNode 102 1 3) = Inr (Some (), 0)"
    "GetEpoch (regAppState regState) (ctxBlockHeight (regCtx regState 1) + 1) = Inr 3"
    "\<And>a b c. EnsureNodeRegistrationStake demoDeps a b c \<noteq> Some ErrNodeExpired"
    "\<And>a b. VerifyNodeUpdate demoDeps a b \<noteq> Some ErrNodeExpired"
    by (simp_all add: reg_demo_defs registerNode_defs)
  from registerNode_expired [OF a] show ?thesis
    by (simp add: reg_demo_defs GetEpoch_def)
qed

text \<open>The count \<open>len(paidRuntimes) * int(additionalEpochs)\<close> without overflow.\<close>

lemma sint_mult_small:
  assumes "n * unat (e::64 word) < 2 ^ 63"
  shows "sint ((word_of_nat n :: 64 word) * e) = int (n * unat e)"
proof -
  have eq: "(word_of_nat n :: 64 word) * e = word_of_nat (n * unat e)"
    by simp
  have "int (n * unat e) < 2 ^ 63"
    using assms by (metis of_nat_less_numeral_power_cancel_iff)
  moreover have "- (2 ^ 63) \<le> int (n * unat e)"
    by (rule order_trans [of _ 0]) simp_all
  ultimately have "signed_take_bit 63 (int (n * unat e)) = int (n * unat e)"
    by (rule signed_take_bit_int_eq_self [rotated])
  then have "sint (word_of_nat (n * unat e) :: 64 word) = int (n * unat e)"
    by (simp only: signed_of_nat) simp
  then show ?thesis by (simp only: eq)
qed

lemma additionalEpochs_unat:
  assumes "epoch < Expiration newNode"
    and "\<And>existingNode. ex = LiveNode existingNode \<Longrightarrow> epoch \<le> Expiration existingNode"
  shows "unat (additionalEpochs newNode ex epoch) =
     (case ex of
        LiveNode existingNode \<Rightarrow>
          (unat (Expiration newNode) - unat epoch) - (unat (Expiration existingNode) - unat epoch)
      | _ \<Rightarrow> unat (Expiration newNode) - unat epoch)"
proof -
  have new: "unat (Expiration newNode - epoch) = unat (Expiration newNode) - unat epoch"
    using assms(1) by (simp add: unat_sub)
  show ?thesis
  proof (cases ex)
    case (LiveNode existingNode)
    then have le: "epoch \<le> Expiration existingNode" by (rule assms(2))
    then have old: "unat (Expiration existingNode - epoch) = unat (Expiration existingNode) - unat epoch"
      by (simp add: unat_sub)
    show ?thesis
    proof (cases "Expiration newNode - epoch > Expiration existingNode - epoch")
      case True
      have "unat ((Expiration newNode - epoch) - (Expiration existingNode - epoch)) =
          unat (Expiration newNode - epoch) - unat (Expiration existingNode - epoch)"
        by (rule unat_sub, rule less_imp_le, rule True)
      with True LiveNode new old show ?thesis
        by (simp add: additionalEpochs_def Let_def)
    next
      case False
      then have "unat (Expiration newNode - epoch) \<le> unat (Expiration existingNode - epoch)"
        by (simp add: word_less_nat_alt)
      with False LiveNode new old show ?thesis
        by (simp add: additionalEpochs_def Let_def)
    qed
  qed (simp_all add: additionalEpochs_def Let_def new)
qed

text \<open>
  Within the range of Go's \<open>int\<close> the count is the one the source's comment asks for.
  In a registration that succeeds, the count given to UseGas for
  GasOpRuntimeEpochMaintenance is the number of paid runtimes times the additional
  epochs, and the gas used grows by that count times the operation's cost. The
  additional epochs are \<open>expiration - epoch(height + 1)\<close> for a new or expired node, and
  for a live node the epochs of the new registration beyond those remaining on the
  existing one, zero when there are none. A node that is not expired has an expiration
  of at least the epoch, and the product stays below \<open>2^63\<close>, the range of Go's \<open>int\<close>.
\<close>

lemma maintenance_gas_in_range:
  fixes paidRuntimes :: "Runtime list"
  defines "paidEpochs \<equiv> \<lambda>newNode ex epoch.
     (case ex of
        LiveNode existingNode \<Rightarrow>
          (unat (Expiration newNode) - unat epoch) - (unat (Expiration existingNode) - unat epoch)
      | _ \<Rightarrow> unat (Expiration newNode) - unat epoch)"
  assumes "\<not> IsCheckOnly ctx"
    and "registerNode deps appState ctx sigNode = (None, ctx')"
    and "registerNode_args deps ctx sigNode = (Inr (params, newNode, paidRuntimes), ctx1)"
    and "GetEpoch appState (ctxBlockHeight ctx + 1) = Inr epoch"
    and "lookupNode deps (ctxState ctx) newNode epoch = Inr ex"
    and "\<And>n e. \<not> IsExpired deps n e \<Longrightarrow> e \<le> Expiration n"
    and "length paidRuntimes * paidEpochs newNode ex epoch < 2 ^ 63"
  shows "feeCount paidRuntimes (additionalEpochs newNode ex epoch)
           = int (length paidRuntimes * paidEpochs newNode ex epoch)
         \<and> ctxGasUsed ctx' = ctxGasUsed ctx1
             + GasCosts params GasOpRuntimeEpochMaintenance
                 * (length paidRuntimes * paidEpochs newNode ex epoch)"
proof -
  from assms(4) have k: "ctxState ctx1 = ctxState ctx" "ctxBlockHeight ctx1 = ctxBlockHeight ctx"
    using registerNode_args_keeps by blast+
  have notexp: "epoch < Expiration newNode"
    using assms(2-6) k
    by (auto simp add: registerNode_def split: sum.splits prod.splits option.splits if_splits)
  have live: "epoch \<le> Expiration existingNode" if "ex = LiveNode existingNode" for existingNode
    using that assms(6,7) by (auto simp add: lookupNode_def split: sum.splits if_splits)
  have u: "unat (additionalEpochs newNode ex epoch) = paidEpochs newNode ex epoch"
    unfolding paidEpochs_def using notexp live by (rule additionalEpochs_unat)
  have fee: "feeCount paidRuntimes (additionalEpochs newNode ex epoch)
           = int (length paidRuntimes * paidEpochs newNode ex epoch)"
    unfolding feeCount_def using assms(8) u sint_mult_small [of "length paidRuntimes" "additionalEpochs newNode ex epoch"]
    by simp
  have gas: "ctxGasUsed ctx' = ctxGasUsed ctx1
             + GasCosts params GasOpRuntimeEpochMaintenance
                 * (length paidRuntimes * paidEpochs newNode ex epoch)"
    using assms(2-6) k notexp
    by (auto simp add: registerNode_def fee UseGas_def Let_def Rollback_def Close_def
        nat_mult_distrib
        split: sum.splits prod.splits option.splits if_splits
        dest!: registerNode_body_keeps)
  from fee gas show ?thesis by simp
qed

text \<open>
  The lemma at a live node with expiration 10 that re-registers with expiration 12 at
  epoch 3: 9 epochs asked, 7 remaining, 2 paid for one runtime, 6 units of gas after the
  500 of the registration.
\<close>

lemma maintenance_gas_in_range_example:
  "registerNode demoDeps (regAppState regStateLive) (regCtx regStateLive 1) \<lparr>Blob = 0, SignaturePublicKey = 1\<rparr>
     = (None, (regCtx (regStateLive\<lparr>rsNodes := [100 \<mapsto> demoNode 100 1 12]\<rparr>) 1)
                \<lparr>ctxGasUsed := 506, ctxEvents := [100]\<rparr>)
   \<and> feeCount [whitelistRT] (additionalEpochs (demoNode 100 1 12) (LiveNode (demoNode 100 1 10)) 3) = 2"
proof -
  have r: "registerNode demoDeps (regAppState regStateLive) (regCtx regStateLive 1) \<lparr>Blob = 0, SignaturePublicKey = 1\<rparr>
     = (None, (regCtx (regStateLive\<lparr>rsNodes := [100 \<mapsto> demoNode 100 1 12]\<rparr>) 1)
                \<lparr>ctxGasUsed := 506, ctxEvents := [100]\<rparr>)"
    by (simp add: reg_demo_defs registerNode_defs)
  have a: "\<not> IsCheckOnly (regCtx regStateLive 1)"
    by (simp add: reg_demo_defs registerNode_defs)
  have b: "registerNode_args demoDeps (regCtx regStateLive 1) \<lparr>Blob = 0, SignaturePublicKey = 1\<rparr>
       = (Inr (demoParams, demoNode 100 1 12, [whitelistRT]), (regCtx regStateLive 1)\<lparr>ctxGasUsed := 500\<rparr>)"
    by (simp add: reg_demo_defs registerNode_defs)
  have c: "GetEpoch (regAppState regStateLive) (ctxBlockHeight (regCtx regStateLive 1) + 1) = Inr 3"
    by (simp add: reg_demo_defs registerNode_defs)
  have d: "lookupNode demoDeps (ctxState (regCtx regStateLive 1)) (demoNode 100 1 12) 3
      = Inr (LiveNode (demoNode 100 1 10))"
    by (simp add: reg_demo_defs registerNode_defs)
  have e: "\<And>n e. \<not> IsExpired demoDeps n e \<Longrightarrow> e \<le> Expiration n"
    by (simp add: reg_demo_defs)
  have f: "length [whitelistRT] *
      (case LiveNode (demoNode 100 1 10) of
        LiveNode existingNode \<Rightarrow>
          (unat (Expiration (demoNode 100 1 12)) - unat (3::64 word)) - (unat (Expiration existingNode) - unat (3::64 word))
      | _ \<Rightarrow> unat (Expiration (demoNode 100 1 12)) - unat (3::64 word)) < 2 ^ 63"
    by (simp add: reg_demo_defs)
  from maintenance_gas_in_range [OF a r b c d e f] r show ?thesis
    by (simp add: reg_demo_defs)
qed

text \<open>
  C8 at an input where the code does not charge what the claim (and the comment at
  lines 443 and 444 of the source) says. A new node of entity 1 lists two paid
  runtimes and declares the expiration \<open>2^63 + 3\<close> when the next block is in epoch 3.
  \<open>additionalEpochs\<close> is \<open>2^63\<close>, \<open>int(additionalEpochs)\<close> is \<open>-2^63\<close>, and twice
  that wraps to 0: UseGas is asked for 0 operations, the node is registered, and the
  gas used is the 500 of the registration alone, where the claim gives \<open>2 * 2^63\<close>
  operations of maintenance.
\<close>

theorem registerNode_maintenance_overflow:
  "registerNode overflowDeps (regAppState regState) (regCtx regState 1) \<lparr>Blob = 3, SignaturePublicKey = 1\<rparr>
     = (None,
        (regCtx (regState\<lparr>rsNodes := [103 \<mapsto> bigNode],
                          rsNodeStatuses := [103 \<mapsto> \<lparr>ExpirationProcessed = False, FreezeEndTime = 0\<rparr>]\<rparr>) 1)
          \<lparr>ctxGasUsed := 500, ctxEvents := [103]\<rparr>)
   \<and> registerNode_args overflowDeps (regCtx regState 1) \<lparr>Blob = 3, SignaturePublicKey = 1\<rparr>
     = (Inr (demoParams, bigNode, [whitelistRT, anyNodeRT]), (regCtx regState 1)\<lparr>ctxGasUsed := 500\<rparr>)
   \<and> unat (additionalEpochs bigNode NewNode 3) = 2 ^ 63
   \<and> feeCount [whitelistRT, anyNodeRT] (additionalEpochs bigNode NewNode 3) = 0
   \<and> feeCount [whitelistRT, anyNodeRT] (additionalEpochs bigNode NewNode 3)
       \<noteq> int (length [whitelistRT, anyNodeRT] * unat (additionalEpochs bigNode NewNode 3))"
  by (simp add: overflowDeps_def bigNode_def reg_demo_defs registerNode_defs)

end
